theory Spec2Isabelle
  imports Complex_Main
begin

section \<open>The value system consumed by the expansion engine (package cty)\<close>

text \<open>
  The decoder in \<^verbatim>\<open>terraform/tfhcl/expand_spec.go\<close> consumes typed values of the
  \<^verbatim>\<open>cty\<close> library: values are null, unknown or known, have a type, and may carry
  marks. A mark is an opaque tag; strings stand for them here. \<open>ListVal\<close>, \<open>MapVal\<close>
  and \<open>SetVal\<close> carry their element type, so that empty collections are typed as well.
\<close>

datatype cty_Type =
    cty_String
  | cty_Number
  | cty_Bool
  | cty_List cty_Type
  | cty_Map cty_Type
  | cty_Set cty_Type
  | cty_Tuple "cty_Type list"
  | cty_Object "(string \<times> cty_Type) list"
  | cty_DynamicPseudoType

datatype cty_Value =
    NullVal cty_Type
  | UnknownVal cty_Type
  | StringVal string
  | NumberVal rat
  | BoolVal bool
  | ListVal cty_Type "cty_Value list"
  | MapVal cty_Type "(string \<times> cty_Value) list"
  | SetVal cty_Type "cty_Value list"
  | TupleVal "cty_Value list"
  | ObjectVal "(string \<times> cty_Value) list"
  | Marked cty_Value "string set"

text \<open>\<^verbatim>\<open>cty.DynamicVal\<close> is the unknown value of the dynamic pseudo-type.\<close>

definition DynamicVal :: cty_Value where
  "DynamicVal = UnknownVal cty_DynamicPseudoType"

fun Type :: "cty_Value \<Rightarrow> cty_Type" where
  "Type (NullVal t) = t"
| "Type (UnknownVal t) = t"
| "Type (StringVal s) = cty_String"
| "Type (NumberVal n) = cty_Number"
| "Type (BoolVal b) = cty_Bool"
| "Type (ListVal t vs) = cty_List t"
| "Type (MapVal t kvs) = cty_Map t"
| "Type (SetVal t vs) = cty_Set t"
| "Type (TupleVal vs) = cty_Tuple (map Type vs)"
| "Type (ObjectVal kvs) = cty_Object (map (\<lambda>(k, v). (k, Type v)) kvs)"
| "Type (Marked v ms) = Type v"

text \<open>\<^verbatim>\<open>Type.FriendlyName()\<close>: the type name shown to users.\<close>

fun FriendlyName :: "cty_Type \<Rightarrow> string" where
  "FriendlyName cty_String = ''string''"
| "FriendlyName cty_Number = ''number''"
| "FriendlyName cty_Bool = ''bool''"
| "FriendlyName (cty_List t) = ''list of '' @ FriendlyName t"
| "FriendlyName (cty_Map t) = ''map of '' @ FriendlyName t"
| "FriendlyName (cty_Set t) = ''set of '' @ FriendlyName t"
| "FriendlyName (cty_Tuple ts) = ''tuple''"
| "FriendlyName (cty_Object ats) = ''object''"
| "FriendlyName cty_DynamicPseudoType = ''dynamic''"

text \<open>
  \<^verbatim>\<open>Value.Unmark()\<close> strips the marks of the value itself (not those of nested
  values) and returns them. \<^verbatim>\<open>Value.WithMarks\<close> adds a set of marks and leaves the
  value alone when the set is empty.
\<close>

fun Unmark :: "cty_Value \<Rightarrow> cty_Value \<times> string set" where
  "Unmark (Marked v ms) = (fst (Unmark v), ms \<union> snd (Unmark v))"
| "Unmark v = (v, {})"

fun IsMarked :: "cty_Value \<Rightarrow> bool" where
  "IsMarked (Marked v ms) = True"
| "IsMarked v = False"

definition WithMarks :: "cty_Value \<Rightarrow> string set \<Rightarrow> cty_Value" where
  "WithMarks v ms = (if ms = {} then v else Marked (fst (Unmark v)) (ms \<union> snd (Unmark v)))"

text \<open>
  An operation that takes a marked value apart puts its marks back on the result: the
  result \<open>r\<close> computed from the unmarked \<open>v\<close> carries the marks of \<open>v\<close>.
\<close>

definition Remark :: "cty_Value \<Rightarrow> cty_Value \<Rightarrow> cty_Value" where
  "Remark v r = (if IsMarked v then Marked r (snd (Unmark v)) else r)"

definition Mark :: "cty_Value \<Rightarrow> string \<Rightarrow> cty_Value" where
  "Mark v m = Marked (fst (Unmark v)) (insert m (snd (Unmark v)))"

text \<open>\<^verbatim>\<open>IsNull\<close> and \<^verbatim>\<open>IsKnown\<close> look through the marks of a value.\<close>

definition IsNull :: "cty_Value \<Rightarrow> bool" where
  "IsNull v = (case fst (Unmark v) of NullVal t \<Rightarrow> True | _ \<Rightarrow> False)"

definition IsKnown :: "cty_Value \<Rightarrow> bool" where
  "IsKnown v = (case fst (Unmark v) of UnknownVal t \<Rightarrow> False | _ \<Rightarrow> True)"

text \<open>
  \<^verbatim>\<open>CanIterateElements\<close> is decided by the marks and the type alone: a marked
  value cannot be iterated, and otherwise exactly the collection and structural types can.
\<close>

definition CanIterateElements :: "cty_Value \<Rightarrow> bool" where
  "CanIterateElements v =
     (if IsMarked v then False
      else case Type v of
             cty_List t \<Rightarrow> True
           | cty_Map t \<Rightarrow> True
           | cty_Set t \<Rightarrow> True
           | cty_Tuple ts \<Rightarrow> True
           | cty_Object ats \<Rightarrow> True
           | _ \<Rightarrow> False)"

text \<open>
  \<^verbatim>\<open>ElementIterator\<close> enumerates a known, non-null collection as pairs of key and
  value: the zero-based index and the element for a list or tuple, the element twice for
  a set, the key or attribute name and the element for a map or object. The lists of a
  set, a map and an object are taken to be in the order in which the library iterates.
\<close>

fun ElementIterator :: "cty_Value \<Rightarrow> (cty_Value \<times> cty_Value) list" where
  "ElementIterator (ListVal t vs) = map (\<lambda>(n, v). (NumberVal (of_nat n), v)) (enumerate 0 vs)"
| "ElementIterator (TupleVal vs) = map (\<lambda>(n, v). (NumberVal (of_nat n), v)) (enumerate 0 vs)"
| "ElementIterator (SetVal t vs) = map (\<lambda>v. (v, v)) vs"
| "ElementIterator (MapVal t kvs) = map (\<lambda>(k, v). (StringVal k, v)) kvs"
| "ElementIterator (ObjectVal kvs) = map (\<lambda>(k, v). (StringVal k, v)) kvs"
| "ElementIterator v = []"

text \<open>
  The texts that the libraries produce and the decoder only copies into its messages are
  parameters of the model: the decimal text of a number, the parser of numbers, the
  debug text \<^verbatim>\<open>Value.GoString()\<close>, the text of a type mismatch
  (\<^verbatim>\<open>convert.MismatchMessage\<close>), and \<^verbatim>\<open>tfdiags.FormatError\<close>.
\<close>

record extern =
  NumberText :: "rat \<Rightarrow> string"
  ParseNumberVal :: "string \<Rightarrow> rat option"
  GoString :: "cty_Value \<Rightarrow> string"
  MismatchMessage :: "cty_Type \<Rightarrow> cty_Type \<Rightarrow> string"
  FormatError :: "string \<Rightarrow> string"

text \<open>
  \<^verbatim>\<open>convert.Convert(v, cty.String)\<close>. Whether a conversion exists depends on the
  type of the value only; nulls and unknowns of a convertible type become the null and
  the unknown string, and the marks of the value are put back on the result. An error
  is the text of the Go error.
\<close>

definition Convert_String :: "extern \<Rightarrow> cty_Value \<Rightarrow> string + cty_Value" where
  "Convert_String X v =
     (let u = fst (Unmark v) in
      case Type u of
        cty_String \<Rightarrow> Inr v
      | cty_Number \<Rightarrow>
          Inr (Remark v (case u of
                 NumberVal q \<Rightarrow> StringVal (NumberText X q)
               | NullVal t \<Rightarrow> NullVal cty_String
               | _ \<Rightarrow> UnknownVal cty_String))
      | cty_Bool \<Rightarrow>
          Inr (Remark v (case u of
                 BoolVal b \<Rightarrow> StringVal (if b then ''true'' else ''false'')
               | NullVal t \<Rightarrow> NullVal cty_String
               | _ \<Rightarrow> UnknownVal cty_String))
      | cty_DynamicPseudoType \<Rightarrow>
          Inr (Remark v (case u of
                 NullVal t \<Rightarrow> NullVal cty_String
               | _ \<Rightarrow> UnknownVal cty_String))
      | t \<Rightarrow> Inl (MismatchMessage X t cty_String))"

text \<open>\<^verbatim>\<open>convert.Convert(v, cty.Number)\<close>, in the same way.\<close>

definition Convert_Number :: "extern \<Rightarrow> cty_Value \<Rightarrow> string + cty_Value" where
  "Convert_Number X v =
     (let u = fst (Unmark v) in
      case Type u of
        cty_Number \<Rightarrow> Inr v
      | cty_String \<Rightarrow>
          (case u of
             StringVal s \<Rightarrow>
               (case ParseNumberVal X s of
                  Some q \<Rightarrow> Inr (Remark v (NumberVal q))
                | None \<Rightarrow> Inl ''a number is required'')
           | NullVal t \<Rightarrow> Inr (Remark v (NullVal cty_Number))
           | _ \<Rightarrow> Inr (Remark v (UnknownVal cty_Number)))
      | cty_DynamicPseudoType \<Rightarrow>
          Inr (Remark v (case u of
                 NullVal t \<Rightarrow> NullVal cty_Number
               | _ \<Rightarrow> UnknownVal cty_Number))
      | t \<Rightarrow> Inl (MismatchMessage X t cty_Number))"

text \<open>
  \<^verbatim>\<open>gocty.FromCtyValue(v, &n)\<close> for a Go \<^verbatim>\<open>int\<close> target (64 bits): the
  number must be whole and in the range of the target. The decoder calls it on known,
  non-null, unmarked numbers only; the other cases are errors.
\<close>

definition MinInt64 :: int where
  "MinInt64 = - 9223372036854775808"

definition MaxInt64 :: int where
  "MaxInt64 = 9223372036854775807"

definition FromCtyValue_int :: "cty_Value \<Rightarrow> string + int" where
  "FromCtyValue_int v =
     (case v of
        NumberVal q \<Rightarrow>
          (if snd (quotient_of q) = 1 \<and> MinInt64 \<le> fst (quotient_of q)
                \<and> fst (quotient_of q) \<le> MaxInt64
           then Inr (fst (quotient_of q))
           else Inl ''value must be a whole number, between -9223372036854775808 and 9223372036854775807'')
      | NullVal t \<Rightarrow> Inl ''null value is not allowed''
      | UnknownVal t \<Rightarrow> Inl ''value must be known''
      | Marked u ms \<Rightarrow> Inl ''value is marked, so must be unmarked first''
      | _ \<Rightarrow> Inl ''number value is required'')"

text \<open>\<^verbatim>\<open>Value.AsString()\<close> panics unless the value is a known, unmarked string.\<close>

definition AsString :: "cty_Value \<Rightarrow> string option" where
  "AsString v = (case v of StringVal s \<Rightarrow> Some s | _ \<Rightarrow> None)"

section \<open>Formatting (package fmt)\<close>

definition digit :: "nat \<Rightarrow> char" where
  "digit n = ''0123456789'' ! n"

function fmt_d :: "nat \<Rightarrow> string" where
  "fmt_d n = (if n < 10 then [digit n] else fmt_d (n div 10) @ [digit (n mod 10)])"
  by pat_completeness auto
termination
  by (relation "measure id") auto

declare fmt_d.simps [simp del]

text \<open>
  \<^verbatim>\<open>%q\<close> puts a string in double quotes and escapes the quote and the backslash.
  Block type names are identifiers, so the escapes of control characters are left out.
\<close>

definition fmt_q :: "string \<Rightarrow> string" where
  "fmt_q s = [CHR 0x22]
     @ concat (map (\<lambda>c. if c = CHR 0x22 \<or> c = CHR 0x5C then [CHR 0x5C, c] else [c]) s)
     @ [CHR 0x22]"

section \<open>Configuration bodies, expressions and diagnostics (package hcl)\<close>

record hcl_Pos =
  Line :: int
  Column :: int
  Byte :: int

record hcl_Range =
  Filename :: string
  Start :: hcl_Pos
  End :: hcl_Pos

text \<open>\<^verbatim>\<open>hcl.RangeBetween\<close>: from the start of the first range to the end of the second.\<close>

definition RangeBetween :: "hcl_Range \<Rightarrow> hcl_Range \<Rightarrow> hcl_Range" where
  "RangeBetween s e = \<lparr>Filename = Filename s, Start = Start s, End = End e\<rparr>"

definition emptyRange :: hcl_Range where
  "emptyRange = \<lparr>Filename = [], Start = \<lparr>Line = 0, Column = 0, Byte = 0\<rparr>,
                  End = \<lparr>Line = 0, Column = 0, Byte = 0\<rparr>\<rparr>"

text \<open>
  An evaluation context holds the variables in scope and a parent context. Its table
  of functions is left out: the decoder never reads it. A nil context is \<open>None\<close>.
\<close>

datatype EvalContext = EvalContext
  (Variables: "(string \<times> cty_Value) list")
  (parent: "EvalContext option")

datatype DiagnosticSeverity = DiagInvalid | DiagError | DiagWarning

datatype 'e Diagnostic = Diagnostic
  (Severity: DiagnosticSeverity)
  (Summary: string)
  (Detail: string)
  (Subject: "hcl_Range option")
  (Expression: "'e option")
  (DiagEvalContext: "EvalContext option")

definition HasErrors :: "'e Diagnostic list \<Rightarrow> bool" where
  "HasErrors diags = list_ex (\<lambda>d. Severity d = DiagError) diags"

datatype Traverser =
    TraverseRoot string hcl_Range
  | TraverseAttr string hcl_Range
  | TraverseIndex cty_Value hcl_Range
  | TraverseSplat hcl_Range

fun TraverserRange :: "Traverser \<Rightarrow> hcl_Range" where
  "TraverserRange (TraverseRoot n r) = r"
| "TraverserRange (TraverseAttr n r) = r"
| "TraverserRange (TraverseIndex k r) = r"
| "TraverserRange (TraverseSplat r) = r"

text \<open>\<^verbatim>\<open>Traversal.SourceRange()\<close> and \<^verbatim>\<open>Traversal.RootName()\<close>; the latter
  panics on a traversal that does not start at a root.\<close>

definition SourceRange :: "Traverser list \<Rightarrow> hcl_Range" where
  "SourceRange t =
     (if length t = 0 then emptyRange
      else RangeBetween (TraverserRange (hd t)) (TraverserRange (last t)))"

definition RootName :: "Traverser list \<Rightarrow> string option" where
  "RootName t = (case t of TraverseRoot n r # rest \<Rightarrow> Some n | _ \<Rightarrow> None)"

text \<open>
  An expression is an interface value. The decoder uses four things of it: its value in
  an evaluation context, its source range, and the results of the package functions
  \<^verbatim>\<open>hcl.AbsTraversalForExpr\<close> and \<^verbatim>\<open>hcl.ExprList\<close> on it.
\<close>

datatype hcl_Expression = Expression
  (ExprValue: "EvalContext option \<Rightarrow> cty_Value \<times> hcl_Expression Diagnostic list")
  (ExprRange: hcl_Range)
  (AbsTraversalForExpr: "Traverser list \<times> hcl_Expression Diagnostic list")
  (ExprList: "hcl_Expression list \<times> hcl_Expression Diagnostic list")

type_synonym Diagnostics = "hcl_Expression Diagnostic list"

record hcl_Attribute =
  Name :: string
  Expr :: hcl_Expression
  AttrRange :: hcl_Range
  NameRange :: hcl_Range

datatype 'b hcl_Block = Block
  (BlockType: string)
  (Labels: "string list")
  (Body: 'b)
  (DefRange: hcl_Range)
  (TypeRange: hcl_Range)
  (LabelRanges: "hcl_Range list")

datatype 'b hcl_BodyContent = BodyContent
  (Attributes: "string \<rightharpoonup> hcl_Attribute")
  (Blocks: "'b hcl_Block list")
  (MissingItemRange: hcl_Range)

record AttributeSchema =
  AttrName :: string
  Required :: bool

record BlockHeaderSchema =
  HeaderType :: string
  LabelNames :: "string list"

record BodySchema =
  SchemaAttributes :: "AttributeSchema list"
  SchemaBlocks :: "BlockHeaderSchema list"

text \<open>
  A body is an interface value as well: \<open>Content\<close> and \<open>PartialContent\<close> answer a
  schema with the content found and diagnostics. The body of remaining items that
  \<^verbatim>\<open>PartialContent\<close> returns too is left out, since the decoder discards it.
\<close>

datatype hcl_Body = MkBody
  (Content: "BodySchema \<Rightarrow> hcl_Body hcl_BodyContent \<times> Diagnostics")
  (PartialContent: "BodySchema \<Rightarrow> hcl_Body hcl_BodyContent \<times> Diagnostics")

section \<open>Directive schemas and the expanding body\<close>

text \<open>
  Modelled from the spec: the three schemas are declared in a file of the package that
  is not part of the sources at hand. A \<^verbatim>\<open>dynamic\<close> directive requires
  \<^verbatim>\<open>for_each\<close>, accepts \<^verbatim>\<open>iterator\<close>, has \<^verbatim>\<open>labels\<close> when the target
  block type has labels, and nests \<^verbatim>\<open>content\<close> blocks; an ordinary block may carry
  \<^verbatim>\<open>count\<close> and \<^verbatim>\<open>for_each\<close>.
\<close>

definition dynamicBlockBodySchemaLabels :: BodySchema where
  "dynamicBlockBodySchemaLabels =
     \<lparr>SchemaAttributes =
        [\<lparr>AttrName = ''for_each'', Required = True\<rparr>,
         \<lparr>AttrName = ''iterator'', Required = False\<rparr>,
         \<lparr>AttrName = ''labels'', Required = True\<rparr>],
      SchemaBlocks = [\<lparr>HeaderType = ''content'', LabelNames = []\<rparr>]\<rparr>"

definition dynamicBlockBodySchemaNoLabels :: BodySchema where
  "dynamicBlockBodySchemaNoLabels =
     \<lparr>SchemaAttributes =
        [\<lparr>AttrName = ''for_each'', Required = True\<rparr>,
         \<lparr>AttrName = ''iterator'', Required = False\<rparr>],
      SchemaBlocks = [\<lparr>HeaderType = ''content'', LabelNames = []\<rparr>]\<rparr>"

definition expandableBlockBodySchema :: BodySchema where
  "expandableBlockBodySchema =
     \<lparr>SchemaAttributes =
        [\<lparr>AttrName = ''count'', Required = False\<rparr>,
         \<lparr>AttrName = ''for_each'', Required = False\<rparr>],
      SchemaBlocks = []\<rparr>"

text \<open>
  Modelled from the spec: the iteration context of one generated element, declared in a
  file that is not part of the sources at hand. It binds the iterator name to the key and
  the value of the element and inherits the bindings of the enclosing directives.
  \<open>IterationEvalContext\<close> layers these bindings, each as an object with the attributes
  \<^verbatim>\<open>key\<close> and \<^verbatim>\<open>value\<close>, on top of the ambient scope.
\<close>

record dynamicIteration =
  IteratorName :: string
  Key :: cty_Value
  Value :: cty_Value
  Inherited :: "(string \<times> cty_Value \<times> cty_Value) list"

definition IterationObject :: "cty_Value \<Rightarrow> cty_Value \<Rightarrow> cty_Value" where
  "IterationObject k v = ObjectVal [(''key'', k), (''value'', v)]"

definition IterationEvalContext :: "dynamicIteration \<Rightarrow> EvalContext option \<Rightarrow> EvalContext option" where
  "IterationEvalContext i base =
     Some (EvalContext
       (map (\<lambda>(n, k, v). (n, IterationObject k v)) (Inherited i)
          @ [(IteratorName i, IterationObject (Key i) (Value i))])
       base)"

definition MakeChild :: "dynamicIteration option \<Rightarrow> string \<Rightarrow> cty_Value \<Rightarrow> cty_Value \<Rightarrow> dynamicIteration" where
  "MakeChild i iteratorName k v =
     (case i of
        None \<Rightarrow> \<lparr>IteratorName = iteratorName, Key = k, Value = v, Inherited = []\<rparr>
      | Some p \<Rightarrow> \<lparr>IteratorName = iteratorName, Key = k, Value = v,
                   Inherited = Inherited p @ [(IteratorName p, Key p, Value p)]\<rparr>)"

text \<open>
  Modelled from the spec: the struct of the expanding body is declared in a file that is
  not part of the sources at hand. It pairs a source body with the ambient evaluation
  context and the iteration it is nested in; a generated body also carries the marks of
  the \<^verbatim>\<open>for_each\<close> value it comes from, and whether it is the placeholder for an
  unknown \<^verbatim>\<open>for_each\<close>. Of these the decoder reads the context only.
\<close>

record expandBody =
  original :: hcl_Body
  ctx :: "EvalContext option"
  iteration :: "dynamicIteration option"
  valueMarks :: "string set"
  unknownBody :: bool

section \<open>Decoding a dynamic directive\<close>

datatype panic = NilPointerDereference | IndexOutOfRange | RelativeTraversal | NotAString

record expandDynamicSpec =
  blockType :: string
  blockTypeRange :: hcl_Range
  defRange :: hcl_Range
  forEachVal :: cty_Value
  iteratorName :: string
  labelExprs :: "hcl_Expression list"
  contentBody :: hcl_Body

type_synonym decodeDynamicSpec_result = "panic + (expandDynamicSpec option \<times> Diagnostics)"

text \<open>
  \<^verbatim>\<open>decodeDynamicSpec\<close> is one Go function; the model follows its four parts in
  order (\<^verbatim>\<open>for_each\<close>, \<^verbatim>\<open>iterator\<close>, \<^verbatim>\<open>labels\<close>, \<^verbatim>\<open>content\<close>), each part
  handing the diagnostics so far to the next. A nil spec is \<open>None\<close>; reading an attribute
  that the content lacks, or the first label range of a block without one, panics.
\<close>

definition decodeDynamicSpec_content ::
  "BlockHeaderSchema \<Rightarrow> hcl_Body hcl_Block \<Rightarrow> hcl_Body hcl_BodyContent \<Rightarrow> cty_Value \<Rightarrow> string
     \<Rightarrow> hcl_Expression list \<Rightarrow> Diagnostics \<Rightarrow> decodeDynamicSpec_result" where
  \<open>decodeDynamicSpec_content blockS rawSpec specContent eachVal itName lExprs diags =
     (if length (Blocks specContent) = 0 then
        Inr (None, diags @ [Diagnostic DiagError
          ''Missing dynamic content block''
          ''A dynamic block must have a nested block of type "content" to describe the body of each generated block.''
          (Some (MissingItemRange specContent)) None None])
      else if length (Blocks specContent) > 1 then
        Inr (None, diags @ [Diagnostic DiagError
          ''Extraneous dynamic content block''
          ''Only one nested content block is allowed for each dynamic block.''
          (Some (DefRange (Blocks specContent ! 1))) None None])
      else
        (case LabelRanges rawSpec of
           [] \<Rightarrow> Inl IndexOutOfRange
         | r # rs \<Rightarrow>
             Inr (Some \<lparr>blockType = HeaderType blockS,
                        blockTypeRange = r,
                        defRange = DefRange rawSpec,
                        forEachVal = eachVal,
                        iteratorName = itName,
                        labelExprs = lExprs,
                        contentBody = Body (Blocks specContent ! 0)\<rparr>, diags)))\<close>

definition decodeDynamicSpec_labels ::
  "BlockHeaderSchema \<Rightarrow> hcl_Body hcl_Block \<Rightarrow> hcl_Body hcl_BodyContent \<Rightarrow> cty_Value \<Rightarrow> string
     \<Rightarrow> Diagnostics \<Rightarrow> decodeDynamicSpec_result" where
  "decodeDynamicSpec_labels blockS rawSpec specContent eachVal itName diags =
     (case Attributes specContent ''labels'' of
        None \<Rightarrow> decodeDynamicSpec_content blockS rawSpec specContent eachVal itName [] diags
      | Some labelsAttr \<Rightarrow>
          (let lExprs = fst (ExprList (Expr labelsAttr));
               labelDiags = snd (ExprList (Expr labelsAttr));
               diags = diags @ labelDiags
           in if HasErrors labelDiags then Inr (None, diags)
              else if length lExprs > length (LabelNames blockS) then
                Inr (None, diags @ [Diagnostic DiagError
                  ''Extraneous dynamic block label''
                  (''Blocks of type '' @ fmt_q (HeaderType blockS) @ '' require ''
                     @ fmt_d (length (LabelNames blockS)) @ '' label(s).'')
                  (Some (ExprRange (lExprs ! length (LabelNames blockS)))) None None])
              else if length lExprs < length (LabelNames blockS) then
                Inr (None, diags @ [Diagnostic DiagError
                  ''Insufficient dynamic block labels''
                  (''Blocks of type '' @ fmt_q (HeaderType blockS) @ '' require ''
                     @ fmt_d (length (LabelNames blockS)) @ '' label(s).'')
                  (Some (ExprRange (Expr labelsAttr))) None None])
              else decodeDynamicSpec_content blockS rawSpec specContent eachVal itName lExprs diags))"

definition decodeDynamicSpec_iterator ::
  "BlockHeaderSchema \<Rightarrow> hcl_Body hcl_Block \<Rightarrow> hcl_Body hcl_BodyContent \<Rightarrow> cty_Value
     \<Rightarrow> Diagnostics \<Rightarrow> decodeDynamicSpec_result" where
  "decodeDynamicSpec_iterator blockS rawSpec specContent eachVal diags =
     (case Attributes specContent ''iterator'' of
        None \<Rightarrow> decodeDynamicSpec_labels blockS rawSpec specContent eachVal (HeaderType blockS) diags
      | Some iteratorAttr \<Rightarrow>
          (let itTraversal = fst (AbsTraversalForExpr (Expr iteratorAttr));
               itDiags = snd (AbsTraversalForExpr (Expr iteratorAttr));
               diags = diags @ itDiags
           in if HasErrors itDiags then Inr (None, diags)
              else if length itTraversal \<noteq> 1 then
                Inr (None, diags @ [Diagnostic DiagError
                  ''Invalid dynamic iterator name''
                  ''Dynamic iterator must be a single variable name.''
                  (Some (SourceRange itTraversal)) None None])
              else
                (case RootName itTraversal of
                   None \<Rightarrow> Inl RelativeTraversal
                 | Some n \<Rightarrow> decodeDynamicSpec_labels blockS rawSpec specContent eachVal n diags)))"

definition dynamicBlockBodySchema :: "BlockHeaderSchema \<Rightarrow> BodySchema" where
  "dynamicBlockBodySchema blockS =
     (if length (LabelNames blockS) \<noteq> 0 then dynamicBlockBodySchemaLabels
      else dynamicBlockBodySchemaNoLabels)"

definition decodeDynamicSpec ::
  "expandBody \<Rightarrow> BlockHeaderSchema \<Rightarrow> hcl_Body hcl_Block \<Rightarrow> decodeDynamicSpec_result" where
  "decodeDynamicSpec b blockS rawSpec =
     (let schema = dynamicBlockBodySchema blockS;
          specContent = fst (Content (Body rawSpec) schema);
          specDiags = snd (Content (Body rawSpec) schema);
          diags = specDiags
      in if HasErrors specDiags then Inr (None, diags)
         else
           (case Attributes specContent ''for_each'' of
              None \<Rightarrow> Inl NilPointerDereference
            | Some eachAttr \<Rightarrow>
                (let eachVal = fst (ExprValue (Expr eachAttr) (ctx b));
                     eachDiags = snd (ExprValue (Expr eachAttr) (ctx b));
                     diags = diags @ eachDiags;
                     unmarkedEachVal = fst (Unmark eachVal)
                 in if \<not> CanIterateElements unmarkedEachVal
                         \<and> Type unmarkedEachVal \<noteq> cty_DynamicPseudoType then
                      Inr (None, diags @ [Diagnostic DiagError
                        ''Invalid dynamic for_each value''
                        (''Cannot use a '' @ FriendlyName (Type eachVal)
                           @ '' value in for_each. An iterable collection is required.'')
                        (Some (ExprRange (Expr eachAttr))) (Some (Expr eachAttr)) (ctx b)])
                    else if IsNull unmarkedEachVal then
                      Inr (None, diags @ [Diagnostic DiagError
                        ''Invalid dynamic for_each value''
                        ''Cannot use a null value in for_each.''
                        (Some (ExprRange (Expr eachAttr))) (Some (Expr eachAttr)) (ctx b)])
                    else decodeDynamicSpec_iterator blockS rawSpec specContent eachVal diags)))"

section \<open>Building one generated block\<close>

text \<open>
  \<^verbatim>\<open>newBlock\<close> evaluates the label expressions in the scope of one iteration, in
  order. The loop carries the labels, their ranges and the diagnostics so far; a nil
  block is \<open>None\<close>. \<^verbatim>\<open>AsString\<close> is reached for known, non-null, unmarked strings
  only, where it does not panic.
\<close>

fun newBlock_labels ::
  "extern \<Rightarrow> EvalContext option \<Rightarrow> hcl_Expression list \<Rightarrow> string list \<Rightarrow> hcl_Range list
     \<Rightarrow> Diagnostics \<Rightarrow> panic + ((string list \<times> hcl_Range list) option \<times> Diagnostics)" where
  "newBlock_labels X lCtx [] labels labelRanges diags = Inr (Some (labels, labelRanges), diags)"
| "newBlock_labels X lCtx (labelExpr # rest) labels labelRanges diags =
     (let labelVal = fst (ExprValue labelExpr lCtx);
          labelDiags = snd (ExprValue labelExpr lCtx);
          diags = diags @ labelDiags
      in if HasErrors labelDiags then Inr (None, diags)
         else
           (case Convert_String X labelVal of
              Inl convErr \<Rightarrow>
                Inr (None, diags @ [Diagnostic DiagError
                  ''Invalid dynamic block label''
                  (''Cannot use this value as a dynamic block label: '' @ convErr @ ''.'')
                  (Some (ExprRange labelExpr)) (Some labelExpr) lCtx])
            | Inr labelVal \<Rightarrow>
                if IsNull labelVal then
                  Inr (None, diags @ [Diagnostic DiagError
                    ''Invalid dynamic block label''
                    ''Cannot use a null value as a dynamic block label.''
                    (Some (ExprRange labelExpr)) (Some labelExpr) lCtx])
                else if \<not> IsKnown labelVal then Inr (None, diags)
                else if IsMarked labelVal then
                  Inr (None, diags @ [Diagnostic DiagError
                    ''Invalid dynamic block label''
                    ''This value has dynamic marks that make it unsuitable for use as a block label.''
                    (Some (ExprRange labelExpr)) (Some labelExpr) lCtx])
                else
                  (case AsString labelVal of
                     None \<Rightarrow> Inl NotAString
                   | Some s \<Rightarrow>
                       newBlock_labels X lCtx rest (labels @ [s])
                         (labelRanges @ [ExprRange labelExpr]) diags)))"

definition newBlock ::
  "extern \<Rightarrow> expandDynamicSpec \<Rightarrow> dynamicIteration \<Rightarrow> EvalContext option
     \<Rightarrow> panic + (hcl_Body hcl_Block option \<times> Diagnostics)" where
  "newBlock X s i c =
     (let lCtx = IterationEvalContext i c in
      case newBlock_labels X lCtx (labelExprs s) [] [] [] of
        Inl p \<Rightarrow> Inl p
      | Inr (None, diags) \<Rightarrow> Inr (None, diags)
      | Inr (Some (labels, labelRanges), diags) \<Rightarrow>
          Inr (Some (Block (blockType s) labels (contentBody s) (defRange s)
                       (blockTypeRange s) labelRanges), diags))"

section \<open>Decoding the meta-arguments of an ordinary block\<close>

text \<open>
  A field of the Go struct that was never assigned holds its zero value: \<open>False\<close>,
  \<open>0\<close>, and for a value the placeholder \<^verbatim>\<open>cty.NilVal\<close>, which is \<open>None\<close> here.
\<close>

record expandMetaArgSpec =
  rawBlock :: "hcl_Body hcl_Block"
  countSet :: bool
  countVal :: "cty_Value option"
  countNum :: int
  forEachSet :: bool
  forEachVal' :: "cty_Value option"

definition decodeMetaArgSpec_forEach ::
  "extern \<Rightarrow> expandBody \<Rightarrow> hcl_Body hcl_BodyContent \<Rightarrow> expandMetaArgSpec \<Rightarrow> Diagnostics
     \<Rightarrow> expandMetaArgSpec \<times> Diagnostics" where
  \<open>decodeMetaArgSpec_forEach X b specContent spec diags =
     (case Attributes specContent ''for_each'' of
        None \<Rightarrow> (spec, diags)
      | Some eachAttr \<Rightarrow>
          (let spec = spec\<lparr>forEachSet := True\<rparr>;
               eachVal = fst (ExprValue (Expr eachAttr) (ctx b));
               eachDiags = snd (ExprValue (Expr eachAttr) (ctx b));
               diags = diags @ eachDiags;
               spec = spec\<lparr>forEachVal' := Some eachVal\<rparr>
           in if \<not> CanIterateElements eachVal \<and> Type eachVal \<noteq> cty_DynamicPseudoType then
                (spec, diags @ [Diagnostic DiagError
                   ''The `for_each` value is not iterable''
                   (''`'' @ GoString X eachVal @ ''` is not iterable'')
                   (Some (ExprRange (Expr eachAttr)))
                   (if IsMarked eachVal then None else Some (Expr eachAttr))
                   (if IsMarked eachVal then None else ctx b)])
              else if IsNull eachVal then
                (spec, diags @ [Diagnostic DiagError
                   ''Invalid for_each argument''
                   ''The given "for_each" argument value is unsuitable: the given "for_each" argument value is null. A map, or set of strings is allowed.''
                   (Some (ExprRange (Expr eachAttr))) (Some (Expr eachAttr)) (ctx b)])
              else (spec, diags)))\<close>

definition decodeMetaArgSpec ::
  "extern \<Rightarrow> expandBody \<Rightarrow> hcl_Body hcl_Block \<Rightarrow> expandMetaArgSpec \<times> Diagnostics" where
  \<open>decodeMetaArgSpec X b rawSpec =
     (let spec = \<lparr>rawBlock = rawSpec, countSet = False, countVal = None, countNum = 0,
                  forEachSet = False, forEachVal' = None\<rparr>;
          specContent = fst (PartialContent (Body rawSpec) expandableBlockBodySchema);
          specDiags = snd (PartialContent (Body rawSpec) expandableBlockBodySchema);
          diags = specDiags
      in if HasErrors specDiags then (spec, diags)
         else
           (case Attributes specContent ''count'' of
              None \<Rightarrow> decodeMetaArgSpec_forEach X b specContent spec diags
            | Some countAttr \<Rightarrow>
                (let spec = spec\<lparr>countSet := True\<rparr>;
                     countDiags = snd (ExprValue (Expr countAttr) (ctx b));
                     diags = diags @ countDiags;
                     cVal = fst (Unmark (fst (ExprValue (Expr countAttr) (ctx b))));
                     spec = spec\<lparr>countVal := Some cVal\<rparr>
                 in if IsKnown cVal then
                      (if IsNull cVal then
                         (spec, diags @ [Diagnostic DiagError
                            ''Invalid count argument''
                            ''The given "count" argument value is null. An integer is required.''
                            (Some (ExprRange (Expr countAttr))) (Some (Expr countAttr)) (ctx b)])
                       else
                         (case Convert_Number X cVal of
                            Inl convErr \<Rightarrow>
                              (spec, diags @ [Diagnostic DiagError
                                 ''Incorrect value type''
                                 (''Invalid expression value: '' @ FormatError X convErr @ ''.'')
                                 (Some (ExprRange (Expr countAttr))) (Some (Expr countAttr)) (ctx b)])
                          | Inr cNumVal \<Rightarrow>
                              (case FromCtyValue_int cNumVal of
                                 Inl err \<Rightarrow>
                                   (spec, diags @ [Diagnostic DiagError
                                      ''Invalid count argument''
                                      (''The given "count" argument value is unsuitable: '' @ err @ ''.'')
                                      (Some (ExprRange (Expr countAttr))) (Some (Expr countAttr)) (ctx b)])
                               | Inr n \<Rightarrow>
                                   (let spec = spec\<lparr>countNum := n\<rparr>
                                    in if countNum spec < 0 then
                                         (spec, diags @ [Diagnostic DiagError
                                            ''Invalid count argument''
                                            ''The given "count" argument value is unsuitable: negative numbers are not supported.''
                                            (Some (ExprRange (Expr countAttr))) (Some (Expr countAttr)) (ctx b)])
                                       else decodeMetaArgSpec_forEach X b specContent spec diags))))
                    else decodeMetaArgSpec_forEach X b specContent spec diags)))\<close>

section \<open>The expander\<close>

text \<open>
  Modelled from the spec: the expander (the walk over the blocks of a body, which turns
  the directives among them into generated blocks) is in a file that is not part of the
  sources at hand. What follows is the algorithm of section 4.3 of the spec, with section
  4.4 for an unknown \<^verbatim>\<open>for_each\<close>, on top of \<^verbatim>\<open>decodeDynamicSpec\<close>, \<^verbatim>\<open>newBlock\<close>
  and \<^verbatim>\<open>decodeMetaArgSpec\<close> as the source has them.

  The spec leaves four points open, and they are parameters of the model: the fixed
  iterator names of the two meta-arguments (section 3 speaks of a fixed name and does not
  give it); which of the two meta-arguments is evaluated when a block declares both, or
  that neither is and what is then reported (section 4.1 leaves the policy to the caller);
  and the labels of the placeholder that stands for an unknown \<^verbatim>\<open>for_each\<close> of a
  dynamic directive (section 4.4 asks for the placeholder and is silent on its labels).
\<close>

datatype bothDeclared = EvaluateCount | EvaluateForEach | EvaluateNeither Diagnostics

record openPoints =
  CountIterator :: string
  ForEachIterator :: string
  BothDeclared :: bothDeclared
  PlaceholderLabels :: "expandDynamicSpec \<Rightarrow> string list"

text \<open>
  Modelled from the spec: the entry point (section 4.3, \<^verbatim>\<open>expand\<close>; the tests call
  \<^verbatim>\<open>Expand(srcBody, ctx)\<close>) pairs a source body with the ambient scope.
\<close>

definition Expand :: "hcl_Body \<Rightarrow> EvalContext option \<Rightarrow> expandBody" where
  "Expand body c =
     \<lparr>original = body, ctx = c, iteration = None, valueMarks = {}, unknownBody = False\<rparr>"

text \<open>
  Modelled from the spec: the body of a literal block is paired with the scope in effect
  where the block stands (step 1: the block is otherwise unchanged).
\<close>

definition literalChild :: "expandBody \<Rightarrow> hcl_Body \<Rightarrow> expandBody" where
  "literalChild b child = b\<lparr>original := child\<rparr>"

text \<open>
  Modelled from the spec: the body of a generated block is the template body paired with
  the iteration of its element (steps 3 and 5). Its ambient scope is the scope of the
  directive with the bindings of the iteration layered on top, so that a directive nested
  in the template is decoded, and its \<^verbatim>\<open>for_each\<close> evaluated, with the enclosing
  iterators in scope. The body carries the marks of the \<^verbatim>\<open>for_each\<close> value it comes
  from, and whether it is the placeholder of an unknown one (section 4.4).
\<close>

definition expandChild ::
  "expandBody \<Rightarrow> dynamicIteration \<Rightarrow> string set \<Rightarrow> bool \<Rightarrow> hcl_Body \<Rightarrow> expandBody" where
  "expandChild b i marks unk child =
     \<lparr>original = child, ctx = IterationEvalContext i (ctx b), iteration = Some i,
      valueMarks = valueMarks b \<union> marks, unknownBody = (unk \<or> unknownBody b)\<rparr>"

type_synonym expandBlocks_result = "panic + (expandBody hcl_Block list \<times> Diagnostics)"

text \<open>
  Modelled from the spec: steps 3 to 5 for the pairs of one dynamic directive, in the
  order of the pairs. Each pair gives an iteration that extends the enclosing one;
  \<^verbatim>\<open>newBlock\<close> evaluates the labels in its scope; an element for which it returns no
  block is left out, its diagnostics are kept, and the walk goes on with the next pair.
\<close>

fun generateBlocks ::
  "extern \<Rightarrow> expandBody \<Rightarrow> expandDynamicSpec \<Rightarrow> string set
     \<Rightarrow> (cty_Value \<times> cty_Value) list \<Rightarrow> expandBlocks_result" where
  "generateBlocks X b spec marks [] = Inr ([], [])"
| "generateBlocks X b spec marks ((k, v) # rest) =
     (let i = MakeChild (iteration b) (iteratorName spec) k v in
      case newBlock X spec i (ctx b) of
        Inl p \<Rightarrow> Inl p
      | Inr (block, blockDiags) \<Rightarrow>
          (case generateBlocks X b spec marks rest of
             Inl p \<Rightarrow> Inl p
           | Inr (blocks, diags) \<Rightarrow>
               Inr ((case block of
                       None \<Rightarrow> []
                     | Some bl \<Rightarrow> [map_hcl_Block (expandChild b i marks False) bl]) @ blocks,
                    blockDiags @ diags)))"

text \<open>
  Modelled from the spec: the placeholder of a dynamic directive whose \<^verbatim>\<open>for_each\<close> is
  unknown (section 4.4). It is produced whatever the label expressions are; its iterator
  key and value are unknown and its body is flagged as unknown.
\<close>

definition placeholderBlock ::
  "openPoints \<Rightarrow> expandBody \<Rightarrow> expandDynamicSpec \<Rightarrow> string set \<Rightarrow> expandBody hcl_Block" where
  "placeholderBlock P b spec marks =
     Block (blockType spec) (PlaceholderLabels P spec)
       (expandChild b (MakeChild (iteration b) (iteratorName spec) DynamicVal DynamicVal)
          marks True (contentBody spec))
       (defRange spec) (blockTypeRange spec) (map ExprRange (labelExprs spec))"

text \<open>
  Modelled from the spec: step 2 for one dynamic directive. A directive that does not
  decode, or decodes with errors, gives its diagnostics and no block. The \<^verbatim>\<open>for_each\<close>
  value is unmarked; when it is known, its elements are enumerated in the order of the
  value system, one pair of key and value per element; when it is unknown, the directive
  gives its placeholder.
\<close>

definition expandDynamicBlock ::
  "extern \<Rightarrow> openPoints \<Rightarrow> expandBody \<Rightarrow> BlockHeaderSchema \<Rightarrow> hcl_Body hcl_Block
     \<Rightarrow> expandBlocks_result" where
  "expandDynamicBlock X P b blockS rawB =
     (case decodeDynamicSpec b blockS rawB of
        Inl p \<Rightarrow> Inl p
      | Inr (None, specDiags) \<Rightarrow> Inr ([], specDiags)
      | Inr (Some spec, specDiags) \<Rightarrow>
          if HasErrors specDiags then Inr ([], specDiags)
          else
            (let u = fst (Unmark (forEachVal spec)); marks = snd (Unmark (forEachVal spec)) in
             if \<not> IsKnown u then Inr ([placeholderBlock P b spec marks], specDiags)
             else
               (case generateBlocks X b spec marks (ElementIterator u) of
                  Inl p \<Rightarrow> Inl p
                | Inr (blocks, diags) \<Rightarrow> Inr (blocks, specDiags @ diags))))"

text \<open>
  Modelled from the spec: the template of a block with meta-arguments is the rest of its
  body (section 3), that is the body without the attributes \<^verbatim>\<open>count\<close> and
  \<^verbatim>\<open>for_each\<close>.
\<close>

definition dropMetaArgs ::
  "hcl_Body hcl_BodyContent \<times> Diagnostics \<Rightarrow> hcl_Body hcl_BodyContent \<times> Diagnostics" where
  "dropMetaArgs r =
     (BodyContent ((Attributes (fst r))(''count'' := None, ''for_each'' := None))
        (Blocks (fst r)) (MissingItemRange (fst r)),
      snd r)"

definition withoutMetaArgs :: "hcl_Body \<Rightarrow> hcl_Body" where
  "withoutMetaArgs body =
     MkBody (\<lambda>schema. dropMetaArgs (Content body schema))
            (\<lambda>schema. dropMetaArgs (PartialContent body schema))"

text \<open>
  Modelled from the spec: the pairs of the count mode are the index twice, for the
  indices from zero below the count (step 2).
\<close>

definition indexPairs :: "int \<Rightarrow> (cty_Value \<times> cty_Value) list" where
  "indexPairs n = map (\<lambda>i. (NumberVal (of_nat i), NumberVal (of_nat i))) [0..<nat n]"

text \<open>
  Modelled from the spec: the blocks that a block with a meta-argument gives for its
  pairs, in their order: each has the type, labels and ranges of the source block, and
  the rest of its body paired with the iteration of the pair under the fixed iterator
  name. A meta-argument that is unknown defers the expansion: the block gives one
  placeholder, flagged as unknown, whose iterator key and value are unknown.
\<close>

definition repeatedBlocks ::
  "expandBody \<Rightarrow> string \<Rightarrow> string set \<Rightarrow> hcl_Body hcl_Block \<Rightarrow> (cty_Value \<times> cty_Value) list
     \<Rightarrow> expandBody hcl_Block list" where
  "repeatedBlocks b name marks rawB kvs =
     map (\<lambda>(k, v). map_hcl_Block
            (\<lambda>body. expandChild b (MakeChild (iteration b) name k v) marks False
                      (withoutMetaArgs body)) rawB) kvs"

definition deferredBlock ::
  "expandBody \<Rightarrow> string \<Rightarrow> string set \<Rightarrow> hcl_Body hcl_Block \<Rightarrow> expandBody hcl_Block" where
  "deferredBlock b name marks rawB =
     map_hcl_Block
       (\<lambda>body. expandChild b (MakeChild (iteration b) name DynamicVal DynamicVal) marks True
                 (withoutMetaArgs body)) rawB"

definition expandCount :: "openPoints \<Rightarrow> expandBody \<Rightarrow> expandMetaArgSpec \<Rightarrow> expandBody hcl_Block list" where
  "expandCount P b spec =
     (case countVal spec of
        None \<Rightarrow> []
      | Some v \<Rightarrow>
          if IsKnown v
          then repeatedBlocks b (CountIterator P) {} (rawBlock spec) (indexPairs (countNum spec))
          else [deferredBlock b (CountIterator P) {} (rawBlock spec)])"

definition expandForEach :: "openPoints \<Rightarrow> expandBody \<Rightarrow> expandMetaArgSpec \<Rightarrow> expandBody hcl_Block list" where
  "expandForEach P b spec =
     (case forEachVal' spec of
        None \<Rightarrow> []
      | Some v \<Rightarrow>
          (let u = fst (Unmark v); marks = snd (Unmark v) in
           if IsKnown u
           then repeatedBlocks b (ForEachIterator P) marks (rawBlock spec) (ElementIterator u)
           else [deferredBlock b (ForEachIterator P) marks (rawBlock spec)]))"

text \<open>
  Modelled from the spec: an ordinary block of a requested type. Its meta-arguments are
  decoded; errors of the decoding give the diagnostics and no block. A block with
  \<^verbatim>\<open>count\<close> is expanded in count mode, one with \<^verbatim>\<open>for_each\<close> in for_each mode, one
  with both as the caller's policy says, and a block with neither is a literal block,
  kept as it is (step 1).
\<close>

definition expandMetaArgBlock ::
  "extern \<Rightarrow> openPoints \<Rightarrow> expandBody \<Rightarrow> hcl_Body hcl_Block
     \<Rightarrow> expandBody hcl_Block list \<times> Diagnostics" where
  "expandMetaArgBlock X P b rawB =
     (let spec = fst (decodeMetaArgSpec X b rawB); diags = snd (decodeMetaArgSpec X b rawB) in
      if HasErrors diags then ([], diags)
      else if countSet spec \<and> forEachSet spec then
        (case BothDeclared P of
           EvaluateCount \<Rightarrow> (expandCount P b spec, diags)
         | EvaluateForEach \<Rightarrow> (expandForEach P b spec, diags)
         | EvaluateNeither conflictDiags \<Rightarrow> ([], diags @ conflictDiags))
      else if countSet spec then (expandCount P b spec, diags)
      else if forEachSet spec then (expandForEach P b spec, diags)
      else ([map_hcl_Block (literalChild b) rawB], diags))"

text \<open>
  Modelled from the spec: one source block. A \<^verbatim>\<open>dynamic\<close> block with the target
  type as its single label is a directive for that type, expanded when the schema asks
  for the type; any other block counts when the schema asks for its type. What the schema
  does not ask for gives nothing.
\<close>

definition expandBlock ::
  "extern \<Rightarrow> openPoints \<Rightarrow> expandBody \<Rightarrow> BodySchema \<Rightarrow> hcl_Body hcl_Block \<Rightarrow> expandBlocks_result" where
  "expandBlock X P b schema rawB =
     (if BlockType rawB = ''dynamic'' then
        (case Labels rawB of
           [realBlockType] \<Rightarrow>
             (case find (\<lambda>blockS. HeaderType blockS = realBlockType) (SchemaBlocks schema) of
                None \<Rightarrow> Inr ([], [])
              | Some blockS \<Rightarrow> expandDynamicBlock X P b blockS rawB)
         | _ \<Rightarrow> Inr ([], []))
      else
        (case find (\<lambda>blockS. HeaderType blockS = BlockType rawB) (SchemaBlocks schema) of
           None \<Rightarrow> Inr ([], [])
         | Some blockS \<Rightarrow> Inr (expandMetaArgBlock X P b rawB)))"

text \<open>
  Modelled from the spec: step 6. The source blocks are walked in the order of their
  declaration, and the blocks and diagnostics that each gives are appended in that order.
\<close>

fun expandBlocks ::
  "extern \<Rightarrow> openPoints \<Rightarrow> expandBody \<Rightarrow> BodySchema \<Rightarrow> hcl_Body hcl_Block list
     \<Rightarrow> expandBlocks_result" where
  "expandBlocks X P b schema [] = Inr ([], [])"
| "expandBlocks X P b schema (rawB # rest) =
     (case expandBlock X P b schema rawB of
        Inl p \<Rightarrow> Inl p
      | Inr (blocks, diags) \<Rightarrow>
          (case expandBlocks X P b schema rest of
             Inl p \<Rightarrow> Inl p
           | Inr (restBlocks, restDiags) \<Rightarrow> Inr (blocks @ restBlocks, diags @ restDiags)))"

text \<open>
  Modelled from the spec: the blocks of the expanded view of a body (sections 2 and 6).
  The source body is asked for the requested block types and for the \<^verbatim>\<open>dynamic\<close>
  directives, with the request for complete content or with the best-effort one, and the
  blocks it returns, which are in the order of the document, are expanded.
\<close>

definition withDynamic :: "BodySchema \<Rightarrow> BodySchema" where
  "withDynamic schema =
     schema\<lparr>SchemaBlocks :=
       SchemaBlocks schema @ [\<lparr>HeaderType = ''dynamic'', LabelNames = [''type'']\<rparr>]\<rparr>"

definition expandedBlocks ::
  "extern \<Rightarrow> openPoints \<Rightarrow> expandBody \<Rightarrow> BodySchema \<Rightarrow> bool \<Rightarrow> expandBlocks_result" where
  "expandedBlocks X P b schema bestEffort =
     (let found = (if bestEffort then PartialContent (original b) (withDynamic schema)
                   else Content (original b) (withDynamic schema))
      in case expandBlocks X P b schema (Blocks (fst found)) of
           Inl p \<Rightarrow> Inl p
         | Inr (blocks, diags) \<Rightarrow> Inr (blocks, snd found @ diags))"

section \<open>What the parts of the decoding accept\<close>

text \<open>
  The conditions under which each part of \<^verbatim>\<open>decodeDynamicSpec\<close> lets the decoding go
  on, read off its tests, with the diagnostics, iterator name and label expressions that
  the part hands on.
\<close>

definition forEachAccepted :: "cty_Value \<Rightarrow> bool" where
  "forEachAccepted eachVal =
     ((CanIterateElements (fst (Unmark eachVal))
         \<or> Type (fst (Unmark eachVal)) = cty_DynamicPseudoType)
      \<and> \<not> IsNull (fst (Unmark eachVal)))"

definition iteratorAccepted :: "hcl_Body hcl_BodyContent \<Rightarrow> bool" where
  "iteratorAccepted specContent =
     (case Attributes specContent ''iterator'' of
        None \<Rightarrow> True
      | Some a \<Rightarrow>
          \<not> HasErrors (snd (AbsTraversalForExpr (Expr a)))
          \<and> (case fst (AbsTraversalForExpr (Expr a)) of
                [TraverseRoot n r] \<Rightarrow> True
              | _ \<Rightarrow> False))"

definition iteratorDiags :: "hcl_Body hcl_BodyContent \<Rightarrow> Diagnostics" where
  "iteratorDiags specContent =
     (case Attributes specContent ''iterator'' of
        None \<Rightarrow> []
      | Some a \<Rightarrow> snd (AbsTraversalForExpr (Expr a)))"

definition iteratorNameOf :: "BlockHeaderSchema \<Rightarrow> hcl_Body hcl_BodyContent \<Rightarrow> string" where
  "iteratorNameOf blockS specContent =
     (case Attributes specContent ''iterator'' of
        None \<Rightarrow> HeaderType blockS
      | Some a \<Rightarrow>
          (case RootName (fst (AbsTraversalForExpr (Expr a))) of
             Some n \<Rightarrow> n
           | None \<Rightarrow> HeaderType blockS))"

definition labelsAccepted :: "BlockHeaderSchema \<Rightarrow> hcl_Body hcl_BodyContent \<Rightarrow> bool" where
  "labelsAccepted blockS specContent =
     (case Attributes specContent ''labels'' of
        None \<Rightarrow> True
      | Some a \<Rightarrow>
          \<not> HasErrors (snd (ExprList (Expr a)))
          \<and> length (fst (ExprList (Expr a))) = length (LabelNames blockS))"

definition labelsDiags :: "hcl_Body hcl_BodyContent \<Rightarrow> Diagnostics" where
  "labelsDiags specContent =
     (case Attributes specContent ''labels'' of
        None \<Rightarrow> []
      | Some a \<Rightarrow> snd (ExprList (Expr a)))"

definition labelExprsOf :: "hcl_Body hcl_BodyContent \<Rightarrow> hcl_Expression list" where
  "labelExprsOf specContent =
     (case Attributes specContent ''labels'' of
        None \<Rightarrow> []
      | Some a \<Rightarrow> fst (ExprList (Expr a)))"

text \<open>
  For \<^verbatim>\<open>newBlock\<close>: the types that convert to string; the label string that an
  expression yields when its value converts to a known, non-null, unmarked string; a good
  label is one that evaluates without error to such a value; and the diagnostics of
  evaluating a list of label expressions.
\<close>

definition hasStringConversion :: "cty_Type \<Rightarrow> bool" where
  "hasStringConversion t =
     (t = cty_String \<or> t = cty_Number \<or> t = cty_Bool \<or> t = cty_DynamicPseudoType)"

definition labelString :: "extern \<Rightarrow> EvalContext option \<Rightarrow> hcl_Expression \<Rightarrow> string option" where
  "labelString X lCtx e =
     (case Convert_String X (fst (ExprValue e lCtx)) of
        Inr (StringVal s) \<Rightarrow> Some s
      | _ \<Rightarrow> None)"

definition goodLabel :: "extern \<Rightarrow> EvalContext option \<Rightarrow> hcl_Expression \<Rightarrow> bool" where
  "goodLabel X lCtx e =
     (\<not> HasErrors (snd (ExprValue e lCtx)) \<and> labelString X lCtx e \<noteq> None)"

definition labelEvalDiags :: "EvalContext option \<Rightarrow> hcl_Expression list \<Rightarrow> Diagnostics" where
  "labelEvalDiags lCtx es = concat (map (\<lambda>e. snd (ExprValue e lCtx)) es)"

text \<open>
  For \<^verbatim>\<open>decodeMetaArgSpec\<close>: a \<^verbatim>\<open>count\<close> value, its marks set aside, passes when it
  is unknown, or is not null, converts to a number and to a Go \<^verbatim>\<open>int\<close>, and is not
  negative; \<open>countNumOf\<close> is the integer then stored in the spec.
\<close>

definition countAccepted :: "extern \<Rightarrow> cty_Value \<Rightarrow> bool" where
  "countAccepted X cv =
     (\<not> IsKnown cv
      \<or> (\<not> IsNull cv
          \<and> (case Convert_Number X cv of
                Inl convErr \<Rightarrow> False
              | Inr nv \<Rightarrow> (case FromCtyValue_int nv of Inl err \<Rightarrow> False | Inr n \<Rightarrow> 0 \<le> n))))"

definition countNumOf :: "extern \<Rightarrow> cty_Value \<Rightarrow> int" where
  "countNumOf X cv =
     (if IsKnown cv
      then (case Convert_Number X cv of
              Inl convErr \<Rightarrow> 0
            | Inr nv \<Rightarrow> (case FromCtyValue_int nv of Inl err \<Rightarrow> 0 | Inr n \<Rightarrow> n))
      else 0)"

section \<open>Example directives\<close>

text \<open>
  Small bodies and expressions in the manner of the mocks of
  \<^verbatim>\<open>expand_body_test.go\<close>: a literal expression evaluates to its value in every
  context and is neither a traversal nor a list; a variable expression is a traversal
  of its root name alone; a list expression lists its items; a static body answers every
  schema with the same content.
\<close>

definition rangeAt :: "int \<Rightarrow> hcl_Range" where
  "rangeAt n = \<lparr>Filename = ''main.tf'', Start = \<lparr>Line = n, Column = 1, Byte = 0\<rparr>,
                End = \<lparr>Line = n, Column = 9, Byte = 8\<rparr>\<rparr>"

definition notTraversal :: "hcl_Range \<Rightarrow> Diagnostics" where
  "notTraversal r = [Diagnostic DiagError ''Invalid expression''
     ''A single static variable reference is required.'' (Some r) None None]"

definition notList :: "hcl_Range \<Rightarrow> Diagnostics" where
  "notList r = [Diagnostic DiagError ''Invalid expression''
     ''A static list expression is required.'' (Some r) None None]"

definition literalExpr :: "cty_Value \<Rightarrow> hcl_Range \<Rightarrow> hcl_Expression" where
  "literalExpr v r = Expression (\<lambda>c. (v, [])) r ([], notTraversal r) ([], notList r)"

definition variableExpr :: "string \<Rightarrow> hcl_Range \<Rightarrow> hcl_Expression" where
  "variableExpr n r = Expression (\<lambda>c. (DynamicVal, [])) r ([TraverseRoot n r], []) ([], notList r)"

definition listExpr :: "hcl_Expression list \<Rightarrow> hcl_Range \<Rightarrow> hcl_Expression" where
  "listExpr es r = Expression (\<lambda>c. (DynamicVal, [])) r ([], notTraversal r) (es, [])"

definition attr :: "string \<Rightarrow> hcl_Expression \<Rightarrow> hcl_Attribute" where
  "attr n e = \<lparr>Name = n, Expr = e, AttrRange = ExprRange e, NameRange = ExprRange e\<rparr>"

definition staticBody :: "(string \<rightharpoonup> hcl_Attribute) \<Rightarrow> hcl_Body hcl_Block list \<Rightarrow> hcl_Body" where
  "staticBody attrs blocks =
     MkBody (\<lambda>schema. (BodyContent attrs blocks (rangeAt 0), []))
            (\<lambda>schema. (BodyContent attrs blocks (rangeAt 0), []))"

definition contentBlock :: "int \<Rightarrow> hcl_Body hcl_Block" where
  "contentBlock n = Block ''content'' [] (staticBody Map.empty []) (rangeAt n) (rangeAt n) []"

definition dynamicBlock :: "string \<Rightarrow> (string \<rightharpoonup> hcl_Attribute) \<Rightarrow> hcl_Body hcl_Block list
     \<Rightarrow> hcl_Body hcl_Block" where
  "dynamicBlock ty attrs blocks =
     Block ''dynamic'' [ty] (staticBody attrs blocks) (rangeAt 1) (rangeAt 1) [rangeAt 1]"

definition topBody :: expandBody where
  "topBody = \<lparr>original = staticBody Map.empty [], ctx = None, iteration = None,
               valueMarks = {}, unknownBody = False\<rparr>"

definition threeStrings :: cty_Value where
  "threeStrings = ListVal cty_String [StringVal ''x'', StringVal ''y'', StringVal ''z'']"

definition exS :: BlockHeaderSchema where
  "exS = \<lparr>HeaderType = ''a'', LabelNames = []\<rparr>"

definition feAttrs :: "cty_Value \<Rightarrow> (string \<rightharpoonup> hcl_Attribute)" where
  "feAttrs v = [''for_each'' \<mapsto> attr ''for_each'' (literalExpr v (rangeAt 2))]"

definition failingExpr :: "hcl_Range \<Rightarrow> hcl_Expression" where
  \<open>failingExpr r = Expression
     (\<lambda>c. (DynamicVal, [Diagnostic DiagError ''Unknown variable''
              ''There is no variable named "undefined".'' (Some r) None None]))
     r ([], notTraversal r) ([], notList r)\<close>

definition exS1 :: BlockHeaderSchema where
  "exS1 = \<lparr>HeaderType = ''a'', LabelNames = [''key'']\<rparr>"

definition flAttrs :: "cty_Value \<Rightarrow> hcl_Expression list \<Rightarrow> (string \<rightharpoonup> hcl_Attribute)" where
  "flAttrs v ls = [''for_each'' \<mapsto> attr ''for_each'' (literalExpr v (rangeAt 2)),
                   ''labels'' \<mapsto> attr ''labels'' (listExpr ls (rangeAt 7))]"

definition fiAttrs :: "cty_Value \<Rightarrow> hcl_Expression \<Rightarrow> (string \<rightharpoonup> hcl_Attribute)" where
  "fiAttrs v e = [''for_each'' \<mapsto> attr ''for_each'' (literalExpr v (rangeAt 2)),
                  ''iterator'' \<mapsto> attr ''iterator'' e]"

definition labelLit :: "int \<Rightarrow> hcl_Expression" where
  "labelLit n = literalExpr (StringVal ''l'') (rangeAt n)"

definition exX :: extern where
  "exX = \<lparr>NumberText = (\<lambda>q. fmt_d (nat \<lfloor>q\<rfloor>)),
           ParseNumberVal = (\<lambda>s. None),
           GoString = (\<lambda>v. ''cty.Value''),
           MismatchMessage = (\<lambda>got want. FriendlyName want @ '' required''),
           FormatError = (\<lambda>e. e)\<rparr>"

fun lookupVariable :: "EvalContext \<Rightarrow> string \<Rightarrow> cty_Value option" where
  "lookupVariable (EvalContext vars p) n =
     (case map_of vars n of
        Some v \<Rightarrow> Some v
      | None \<Rightarrow> (case p of None \<Rightarrow> None | Some q \<Rightarrow> lookupVariable q n))"

definition iteratorValueExpr :: "string \<Rightarrow> hcl_Range \<Rightarrow> hcl_Expression" where
  "iteratorValueExpr n r = Expression
     (\<lambda>c. case c of
             None \<Rightarrow> (DynamicVal, notTraversal r)
           | Some cx \<Rightarrow>
               (case lookupVariable cx n of
                  Some (ObjectVal kvs) \<Rightarrow>
                    (case map_of kvs ''value'' of
                       Some v \<Rightarrow> (v, [])
                     | None \<Rightarrow> (DynamicVal, notTraversal r))
                | _ \<Rightarrow> (DynamicVal, notTraversal r)))
     r ([TraverseRoot n r, TraverseAttr ''value'' r], []) ([], notList r)"

definition labelledSpec :: "hcl_Expression list \<Rightarrow> expandDynamicSpec" where
  "labelledSpec es = \<lparr>blockType = ''a'', blockTypeRange = rangeAt 1, defRange = rangeAt 1,
     forEachVal = threeStrings, iteratorName = ''a'', labelExprs = es,
     contentBody = staticBody Map.empty []\<rparr>"

definition metaBlock :: "(string \<rightharpoonup> hcl_Attribute) \<Rightarrow> hcl_Body hcl_Block" where
  "metaBlock attrs = Block ''resource'' [''aws_instance'', ''web''] (staticBody attrs [])
     (rangeAt 1) (rangeAt 1) [rangeAt 1, rangeAt 1]"

definition countAttrs :: "cty_Value \<Rightarrow> (string \<rightharpoonup> hcl_Attribute)" where
  "countAttrs v = [''count'' \<mapsto> attr ''count'' (literalExpr v (rangeAt 2))]"

definition bothAttrs :: "cty_Value \<Rightarrow> cty_Value \<Rightarrow> (string \<rightharpoonup> hcl_Attribute)" where
  "bothAttrs cv ev = [''count'' \<mapsto> attr ''count'' (literalExpr cv (rangeAt 2)),
                      ''for_each'' \<mapsto> attr ''for_each'' (literalExpr ev (rangeAt 3))]"

text \<open>
  For the expander: a schema that asks for blocks of type \<^verbatim>\<open>a\<close> with one label, literal
  blocks of that type, label expressions that read the key of an iterator, the bodies
  that the expander pairs with the elements of \<open>threeStrings\<close>, a directive in the manner
  of the test of the expansion, and a choice of the open points.
\<close>

definition schemaA :: BodySchema where
  "schemaA = \<lparr>SchemaAttributes = [], SchemaBlocks = [exS1]\<rparr>"


definition iteratorKeyExpr :: "string \<Rightarrow> hcl_Range \<Rightarrow> hcl_Expression" where
  "iteratorKeyExpr n r = Expression
     (\<lambda>c. case c of
             None \<Rightarrow> (DynamicVal, notTraversal r)
           | Some cx \<Rightarrow>
               (case lookupVariable cx n of
                  Some (ObjectVal kvs) \<Rightarrow>
                    (case map_of kvs ''key'' of
                       Some v \<Rightarrow> (v, [])
                     | None \<Rightarrow> (DynamicVal, notTraversal r))
                | _ \<Rightarrow> (DynamicVal, notTraversal r)))
     r ([TraverseRoot n r, TraverseAttr ''key'' r], []) ([], notList r)"




definition keyLabelledSpec :: expandDynamicSpec where
  "keyLabelledSpec = \<lparr>blockType = ''a'', blockTypeRange = rangeAt 1, defRange = rangeAt 1,
     forEachVal = threeStrings, iteratorName = ''a'',
     labelExprs = [iteratorKeyExpr ''a'' (rangeAt 3)], contentBody = staticBody Map.empty []\<rparr>"

definition exP :: openPoints where
  "exP = \<lparr>CountIterator = ''count'', ForEachIterator = ''each'',
           BothDeclared = EvaluateNeither [], PlaceholderLabels = (\<lambda>spec. [])\<rparr>"

text \<open>
  Further examples: a block with \<^verbatim>\<open>count\<close> and the bodies of its copies; the
  nested directives of the test of the expansion, where the inner \<^verbatim>\<open>for_each\<close> reads
  the iterator of the outer directive, with the bodies they give; and the body of the
  placeholder of an unknown \<^verbatim>\<open>for_each\<close>.
\<close>

definition countedBlock :: "cty_Value \<Rightarrow> hcl_Body hcl_Block" where
  "countedBlock n = Block ''a'' [''web''] (staticBody (countAttrs n) [])
     (rangeAt 1) (rangeAt 1) [rangeAt 1]"

definition countedBody :: "cty_Value \<Rightarrow> rat \<Rightarrow> expandBody" where
  "countedBody n k = \<lparr>original = withoutMetaArgs (staticBody (countAttrs n) []),
     ctx = Some (EvalContext
       [(''count'', ObjectVal [(''key'', NumberVal k), (''value'', NumberVal k)])] None),
     iteration = Some \<lparr>IteratorName = ''count'', Key = NumberVal k, Value = NumberVal k,
                        Inherited = []\<rparr>,
     valueMarks = {}, unknownBody = False\<rparr>"

definition schemaB :: BodySchema where
  "schemaB = \<lparr>SchemaAttributes = [], SchemaBlocks = [\<lparr>HeaderType = ''b'', LabelNames = []\<rparr>]\<rparr>"

definition schemaC :: BodySchema where
  "schemaC = \<lparr>SchemaAttributes = [], SchemaBlocks = [\<lparr>HeaderType = ''c'', LabelNames = []\<rparr>]\<rparr>"

definition nestedValues :: cty_Value where
  "nestedValues = ListVal cty_String
     [StringVal ''dynamic c nested 0'', StringVal ''dynamic c nested 1'']"

definition innerDirective :: "hcl_Body hcl_Block" where
  "innerDirective = Block ''dynamic'' [''c'']
     (staticBody [''for_each'' \<mapsto> attr ''for_each'' (iteratorValueExpr ''dyn_b'' (rangeAt 4))]
        [contentBlock 5])
     (rangeAt 3) (rangeAt 3) [rangeAt 3]"

definition outerDirective :: "hcl_Body hcl_Block" where
  "outerDirective = Block ''dynamic'' [''b'']
     (staticBody
        (fiAttrs (MapVal (cty_List cty_String) [(''foo'', nestedValues)])
           (variableExpr ''dyn_b'' (rangeAt 2)))
        [Block ''content'' [] (staticBody Map.empty [innerDirective]) (rangeAt 2) (rangeAt 2) []])
     (rangeAt 1) (rangeAt 1) [rangeAt 1]"

definition outerBody :: expandBody where
  "outerBody = \<lparr>original = staticBody Map.empty [innerDirective],
     ctx = Some (EvalContext
       [(''dyn_b'', ObjectVal [(''key'', StringVal ''foo''), (''value'', nestedValues)])] None),
     iteration = Some \<lparr>IteratorName = ''dyn_b'', Key = StringVal ''foo'', Value = nestedValues,
                        Inherited = []\<rparr>,
     valueMarks = {}, unknownBody = False\<rparr>"

definition innerBody :: "rat \<Rightarrow> cty_Value \<Rightarrow> expandBody" where
  "innerBody k v = \<lparr>original = staticBody Map.empty [],
     ctx = Some (EvalContext
       [(''dyn_b'', ObjectVal [(''key'', StringVal ''foo''), (''value'', nestedValues)]),
        (''c'', ObjectVal [(''key'', NumberVal k), (''value'', v)])] (ctx outerBody)),
     iteration = Some \<lparr>IteratorName = ''c'', Key = NumberVal k, Value = v,
                        Inherited = [(''dyn_b'', StringVal ''foo'', nestedValues)]\<rparr>,
     valueMarks = {}, unknownBody = False\<rparr>"

definition placeholderBody :: expandBody where
  "placeholderBody = \<lparr>original = staticBody Map.empty [],
     ctx = Some (EvalContext
       [(''a'', ObjectVal [(''key'', DynamicVal), (''value'', DynamicVal)])] None),
     iteration = Some \<lparr>IteratorName = ''a'', Key = DynamicVal, Value = DynamicVal,
                        Inherited = []\<rparr>,
     valueMarks = {}, unknownBody = True\<rparr>"

section \<open>Properties of the value system\<close>

lemma Type_Unmark [simp]: "Type (fst (Unmark v)) = Type v"
  by (induction v) auto

lemma Unmark_idem [simp]: "fst (Unmark (fst (Unmark v))) = fst (Unmark v)"
  by (induction v) auto

lemma IsNull_Unmark [simp]: "IsNull (fst (Unmark v)) = IsNull v"
  by (simp add: IsNull_def)

lemma IsKnown_Unmark [simp]: "IsKnown (fst (Unmark v)) = IsKnown v"
  by (simp add: IsKnown_def)

lemma IsMarked_Unmark [simp]: "\<not> IsMarked (fst (Unmark v))"
  by (induction v) auto

lemma Unmark_not_Marked: "fst (Unmark v) \<noteq> Marked u ms"
  by (induction v) auto

lemma Type_Remark [simp]: "Type (Remark v r) = Type r"
  by (simp add: Remark_def)

lemma IsMarked_Remark [simp]: "\<not> IsMarked r \<Longrightarrow> IsMarked (Remark v r) = IsMarked v"
  by (simp add: Remark_def)

lemma Unmark_Remark [simp]: "\<not> IsMarked r \<Longrightarrow> fst (Unmark (Remark v r)) = r"
  by (cases r) (simp_all add: Remark_def)


lemma Convert_String_conversion:
  assumes "hasStringConversion (Type v)"
  shows "\<exists>lv. Convert_String X v = Inr lv \<and> Type lv = cty_String
           \<and> IsMarked lv = IsMarked v \<and> IsKnown lv = IsKnown v \<and> IsNull lv = IsNull v"
proof -
  have nm: "\<And>u ms. fst (Unmark v) \<noteq> Marked u ms" by (rule Unmark_not_Marked)
  have ty: "Type (fst (Unmark v)) = Type v" by simp
  show ?thesis
    using assms nm ty
    by (cases "fst (Unmark v)")
       (auto simp add: Convert_String_def hasStringConversion_def Let_def IsKnown_def IsNull_def
          simp del: Type_Unmark)
qed



lemma IsNull_IsKnown: "IsNull v \<Longrightarrow> IsKnown v"
  by (auto simp add: IsNull_def IsKnown_def split: cty_Value.splits)

section \<open>Properties of the decoding of a dynamic directive\<close>

subsection \<open>The parts hand on to each other\<close>

lemma decodeDynamicSpec_forEach_passes:
  assumes "Content (Body rawSpec) (dynamicBlockBodySchema blockS) = (specContent, specDiags)"
    and "\<not> HasErrors specDiags"
    and "Attributes specContent ''for_each'' = Some eachAttr"
    and "ExprValue (Expr eachAttr) (ctx b) = (eachVal, eachDiags)"
    and "forEachAccepted eachVal"
  shows "decodeDynamicSpec b blockS rawSpec =
           decodeDynamicSpec_iterator blockS rawSpec specContent eachVal (specDiags @ eachDiags)"
  using assms by (auto simp add: decodeDynamicSpec_def forEachAccepted_def Let_def)

lemma decodeDynamicSpec_iterator_passes:
  assumes "iteratorAccepted specContent"
  shows "decodeDynamicSpec_iterator blockS rawSpec specContent eachVal diags =
           decodeDynamicSpec_labels blockS rawSpec specContent eachVal
             (iteratorNameOf blockS specContent) (diags @ iteratorDiags specContent)"
  using assms
  by (auto simp add: decodeDynamicSpec_iterator_def iteratorAccepted_def iteratorNameOf_def
      iteratorDiags_def Let_def RootName_def split: option.splits list.splits Traverser.splits)

lemma decodeDynamicSpec_labels_passes:
  assumes "labelsAccepted blockS specContent"
  shows "decodeDynamicSpec_labels blockS rawSpec specContent eachVal itName diags =
           decodeDynamicSpec_content blockS rawSpec specContent eachVal itName
             (labelExprsOf specContent) (diags @ labelsDiags specContent)"
  using assms
  by (auto simp add: decodeDynamicSpec_labels_def labelsAccepted_def labelExprsOf_def
      labelsDiags_def Let_def split: option.splits)

lemma decodeDynamicSpec_reaches_content:
  assumes "Content (Body rawSpec) (dynamicBlockBodySchema blockS) = (specContent, specDiags)"
    and "\<not> HasErrors specDiags"
    and "Attributes specContent ''for_each'' = Some eachAttr"
    and "ExprValue (Expr eachAttr) (ctx b) = (eachVal, eachDiags)"
    and "forEachAccepted eachVal"
    and "iteratorAccepted specContent"
    and "labelsAccepted blockS specContent"
  shows "decodeDynamicSpec b blockS rawSpec =
      decodeDynamicSpec_content blockS rawSpec specContent eachVal
        (iteratorNameOf blockS specContent) (labelExprsOf specContent)
        (specDiags @ eachDiags @ iteratorDiags specContent @ labelsDiags specContent)"
  using assms
  by (simp add: decodeDynamicSpec_forEach_passes decodeDynamicSpec_iterator_passes
      decodeDynamicSpec_labels_passes)

subsection \<open>What a result of the decoding tells\<close>

lemma HasErrors_append [simp]: "HasErrors (xs @ ys) = (HasErrors xs \<or> HasErrors ys)"
  by (simp add: HasErrors_def)

lemma HasErrors_error [simp]: "HasErrors (Diagnostic DiagError s d r e c # ds)"
  by (simp add: HasErrors_def)

lemma HasErrors_Nil [simp]: "\<not> HasErrors []"
  by (simp add: HasErrors_def)

lemma decodeDynamicSpec_content_None:
  "decodeDynamicSpec_content blockS rawSpec specContent eachVal itName lExprs diags = Inr (None, ds)
     \<Longrightarrow> HasErrors ds \<and> length (Blocks specContent) \<noteq> 1"
  by (auto simp add: decodeDynamicSpec_content_def split: if_splits list.splits)

lemma decodeDynamicSpec_content_Some:
  "decodeDynamicSpec_content blockS rawSpec specContent eachVal itName lExprs diags = Inr (Some spec, ds)
     \<Longrightarrow> ds = diags \<and> length (Blocks specContent) = 1 \<and> iteratorName spec = itName
          \<and> labelExprs spec = lExprs \<and> forEachVal spec = eachVal
          \<and> contentBody spec = Body (Blocks specContent ! 0) \<and> blockType spec = HeaderType blockS"
  by (cases "Blocks specContent")
     (auto simp add: decodeDynamicSpec_content_def split: if_splits list.splits)

lemma decodeDynamicSpec_labels_None:
  "decodeDynamicSpec_labels blockS rawSpec specContent eachVal itName diags = Inr (None, ds)
     \<Longrightarrow> HasErrors ds"
  by (auto simp add: decodeDynamicSpec_labels_def Let_def
      split: option.splits if_splits dest: decodeDynamicSpec_content_None)

lemma decodeDynamicSpec_labels_Some:
  "decodeDynamicSpec_labels blockS rawSpec specContent eachVal itName diags = Inr (Some spec, ds)
     \<Longrightarrow> labelsAccepted blockS specContent \<and> ds = diags @ labelsDiags specContent
          \<and> length (Blocks specContent) = 1 \<and> iteratorName spec = itName
          \<and> labelExprs spec = labelExprsOf specContent \<and> forEachVal spec = eachVal"
  by (auto simp add: decodeDynamicSpec_labels_def Let_def labelsAccepted_def labelsDiags_def
      labelExprsOf_def split: option.splits if_splits dest: decodeDynamicSpec_content_Some)

lemma decodeDynamicSpec_iterator_None:
  "decodeDynamicSpec_iterator blockS rawSpec specContent eachVal diags = Inr (None, ds)
     \<Longrightarrow> HasErrors ds"
  by (auto simp add: decodeDynamicSpec_iterator_def Let_def
      split: option.splits if_splits dest: decodeDynamicSpec_labels_None)

lemma RootName_single:
  "length t = 1 \<Longrightarrow> RootName t = Some n \<Longrightarrow> \<exists>r. t = [TraverseRoot n r]"
  by (cases t) (auto simp add: RootName_def split: Traverser.splits)

lemma decodeDynamicSpec_iterator_Some:
  assumes res: "decodeDynamicSpec_iterator blockS rawSpec specContent eachVal diags = Inr (Some spec, ds)"
  shows "iteratorAccepted specContent \<and> labelsAccepted blockS specContent
          \<and> ds = diags @ iteratorDiags specContent @ labelsDiags specContent
          \<and> length (Blocks specContent) = 1 \<and> iteratorName spec = iteratorNameOf blockS specContent
          \<and> labelExprs spec = labelExprsOf specContent \<and> forEachVal spec = eachVal"
proof (cases "Attributes specContent ''iterator''")
  case None
  with res show ?thesis
    by (auto simp add: decodeDynamicSpec_iterator_def iteratorAccepted_def iteratorDiags_def
        iteratorNameOf_def dest!: decodeDynamicSpec_labels_Some)
next
  case (Some a)
  let ?t = "fst (AbsTraversalForExpr (Expr a))"
  from res Some have ok: "\<not> HasErrors (snd (AbsTraversalForExpr (Expr a)))" and len: "length ?t = 1"
    by (auto simp add: decodeDynamicSpec_iterator_def Let_def split: if_splits)
  from res Some ok len obtain n where root: "RootName ?t = Some n"
    and rest: "decodeDynamicSpec_labels blockS rawSpec specContent eachVal n
                 (diags @ snd (AbsTraversalForExpr (Expr a))) = Inr (Some spec, ds)"
    by (auto simp add: decodeDynamicSpec_iterator_def Let_def split: option.splits)
  from RootName_single [OF len root] obtain r where t: "?t = [TraverseRoot n r]" ..
  from decodeDynamicSpec_labels_Some [OF rest] Some ok t root show ?thesis
    by (simp add: iteratorAccepted_def iteratorDiags_def iteratorNameOf_def)
qed

lemma decodeDynamicSpec_None:
  "decodeDynamicSpec b blockS rawSpec = Inr (None, ds) \<Longrightarrow> HasErrors ds"
  by (auto simp add: decodeDynamicSpec_def Let_def
      split: option.splits if_splits dest: decodeDynamicSpec_iterator_None)

lemma decodeDynamicSpec_Some:
  assumes "decodeDynamicSpec b blockS rawSpec = Inr (Some spec, ds)"
    and "Content (Body rawSpec) (dynamicBlockBodySchema blockS) = (specContent, specDiags)"
  shows "\<not> HasErrors specDiags \<and>
     (\<exists>eachAttr. Attributes specContent ''for_each'' = Some eachAttr
        \<and> forEachAccepted (fst (ExprValue (Expr eachAttr) (ctx b)))
        \<and> ds = specDiags @ snd (ExprValue (Expr eachAttr) (ctx b))
                 @ iteratorDiags specContent @ labelsDiags specContent
        \<and> forEachVal spec = fst (ExprValue (Expr eachAttr) (ctx b)))
     \<and> iteratorAccepted specContent \<and> labelsAccepted blockS specContent
     \<and> length (Blocks specContent) = 1 \<and> iteratorName spec = iteratorNameOf blockS specContent
     \<and> labelExprs spec = labelExprsOf specContent"
  using assms
  by (auto simp add: decodeDynamicSpec_def Let_def forEachAccepted_def
      split: option.splits if_splits dest!: decodeDynamicSpec_iterator_Some)

lemma iteratorAccepted_no_errors: "iteratorAccepted c \<Longrightarrow> \<not> HasErrors (iteratorDiags c)"
  by (auto simp add: iteratorAccepted_def iteratorDiags_def split: option.splits)

lemma labelsAccepted_no_errors: "labelsAccepted s c \<Longrightarrow> \<not> HasErrors (labelsDiags c)"
  by (auto simp add: labelsAccepted_def labelsDiags_def split: option.splits)

subsection \<open>The content block\<close>

text \<open>
  C9. A dynamic directive must nest exactly one \<^verbatim>\<open>content\<close> block. When the
  \<^verbatim>\<open>for_each\<close>, \<^verbatim>\<open>iterator\<close> and \<^verbatim>\<open>labels\<close> parts have let the decoding go on:
  without a content block the decoding fails with the error "Missing dynamic content
  block"; with more than one it fails with "Extraneous dynamic content block", whose
  subject is the defining range of the second content block; with exactly one it returns a
  spec whose template body is the body of that block.
\<close>

theorem decodeDynamicSpec_content_blocks:
  assumes "Content (Body rawSpec) (dynamicBlockBodySchema blockS) = (specContent, specDiags)"
    and "\<not> HasErrors specDiags"
    and "Attributes specContent ''for_each'' = Some eachAttr"
    and "ExprValue (Expr eachAttr) (ctx b) = (eachVal, eachDiags)"
    and "forEachAccepted eachVal"
    and "iteratorAccepted specContent"
    and "labelsAccepted blockS specContent"
  shows \<open>(length (Blocks specContent) = 0 \<longrightarrow>
            decodeDynamicSpec b blockS rawSpec =
              Inr (None, specDiags @ eachDiags @ iteratorDiags specContent @ labelsDiags specContent
                @ [Diagnostic DiagError ''Missing dynamic content block''
                     ''A dynamic block must have a nested block of type "content" to describe the body of each generated block.''
                     (Some (MissingItemRange specContent)) None None]))
       \<and> (length (Blocks specContent) > 1 \<longrightarrow>
            decodeDynamicSpec b blockS rawSpec =
              Inr (None, specDiags @ eachDiags @ iteratorDiags specContent @ labelsDiags specContent
                @ [Diagnostic DiagError ''Extraneous dynamic content block''
                     ''Only one nested content block is allowed for each dynamic block.''
                     (Some (DefRange (Blocks specContent ! 1))) None None]))
       \<and> (length (Blocks specContent) = 1 \<and> LabelRanges rawSpec \<noteq> [] \<longrightarrow>
            (\<exists>spec. decodeDynamicSpec b blockS rawSpec =
                 Inr (Some spec, specDiags @ eachDiags @ iteratorDiags specContent
                        @ labelsDiags specContent)
               \<and> contentBody spec = Body (Blocks specContent ! 0)))\<close>
proof -
  note reach = decodeDynamicSpec_reaches_content [OF assms]
  show ?thesis
    unfolding reach
    by (auto simp add: decodeDynamicSpec_content_def split: list.splits)
qed

theorem decodeDynamicSpec_content_blocks_witness:
  \<open>decodeDynamicSpec topBody exS (dynamicBlock ''a'' (feAttrs threeStrings) []) =
      Inr (None, [Diagnostic DiagError ''Missing dynamic content block''
         ''A dynamic block must have a nested block of type "content" to describe the body of each generated block.''
         (Some (rangeAt 0)) None None])
   \<and> decodeDynamicSpec topBody exS
        (dynamicBlock ''a'' (feAttrs threeStrings) [contentBlock 5, contentBlock 6]) =
      Inr (None, [Diagnostic DiagError ''Extraneous dynamic content block''
         ''Only one nested content block is allowed for each dynamic block.''
         (Some (rangeAt 6)) None None])
   \<and> (\<exists>spec. decodeDynamicSpec topBody exS
          (dynamicBlock ''a'' (feAttrs threeStrings) [contentBlock 5]) = Inr (Some spec, [])
        \<and> contentBody spec = Body (contentBlock 5))\<close>
  using decodeDynamicSpec_content_blocks [where b = topBody and blockS = exS
      and rawSpec = "dynamicBlock ''a'' (feAttrs threeStrings) []"
      and specContent = "BodyContent (feAttrs threeStrings) [] (rangeAt 0)"
      and specDiags = "[]" and eachVal = threeStrings and eachDiags = "[]"
      and eachAttr = "attr ''for_each'' (literalExpr threeStrings (rangeAt 2))"]
    decodeDynamicSpec_content_blocks [where b = topBody and blockS = exS
      and rawSpec = "dynamicBlock ''a'' (feAttrs threeStrings) [contentBlock 5, contentBlock 6]"
      and specContent = "BodyContent (feAttrs threeStrings) [contentBlock 5, contentBlock 6] (rangeAt 0)"
      and specDiags = "[]" and eachVal = threeStrings and eachDiags = "[]"
      and eachAttr = "attr ''for_each'' (literalExpr threeStrings (rangeAt 2))"]
    decodeDynamicSpec_content_blocks [where b = topBody and blockS = exS
      and rawSpec = "dynamicBlock ''a'' (feAttrs threeStrings) [contentBlock 5]"
      and specContent = "BodyContent (feAttrs threeStrings) [contentBlock 5] (rangeAt 0)"
      and specDiags = "[]" and eachVal = threeStrings and eachDiags = "[]"
      and eachAttr = "attr ''for_each'' (literalExpr threeStrings (rangeAt 2))"]
  by (simp add: dynamicBlock_def staticBody_def attr_def literalExpr_def topBody_def
      threeStrings_def contentBlock_def rangeAt_def exS_def feAttrs_def
      forEachAccepted_def CanIterateElements_def IsNull_def iteratorAccepted_def
      labelsAccepted_def iteratorDiags_def labelsDiags_def HasErrors_def)

subsection \<open>The \<^verbatim>\<open>for_each\<close> value\<close>

text \<open>
  C3 (as amended). \<^verbatim>\<open>decodeDynamicSpec\<close> looks at the \<^verbatim>\<open>for_each\<close> value with its
  marks set aside, and tests its type before it tests for null. A value whose type is
  neither iterable nor dynamic, be it known, unknown or null, fails with "Invalid dynamic
  for_each value", the detail saying that an iterable collection is required and citing
  the friendly name of the type. Otherwise a null value (of dynamic or of iterable type)
  fails with the detail "Cannot use a null value in for_each.". Otherwise (an
  unknown value of dynamic type, or a non-null value of iterable type, marked or not) no
  diagnostic is added for \<^verbatim>\<open>for_each\<close>: the decoding goes on with the iterator part, and
  when the rest of the directive is well-formed it returns a spec that holds the value
  with its marks.
\<close>

theorem decodeDynamicSpec_for_each:
  assumes "Content (Body rawSpec) (dynamicBlockBodySchema blockS) = (specContent, specDiags)"
    and "\<not> HasErrors specDiags"
    and "Attributes specContent ''for_each'' = Some eachAttr"
    and "ExprValue (Expr eachAttr) (ctx b) = (eachVal, eachDiags)"
  shows "(\<not> CanIterateElements (fst (Unmark eachVal)) \<and> Type eachVal \<noteq> cty_DynamicPseudoType \<longrightarrow>
            decodeDynamicSpec b blockS rawSpec =
              Inr (None, specDiags @ eachDiags @ [Diagnostic DiagError
                ''Invalid dynamic for_each value''
                (''Cannot use a '' @ FriendlyName (Type eachVal)
                   @ '' value in for_each. An iterable collection is required.'')
                (Some (ExprRange (Expr eachAttr))) (Some (Expr eachAttr)) (ctx b)]))
       \<and> ((CanIterateElements (fst (Unmark eachVal)) \<or> Type eachVal = cty_DynamicPseudoType)
            \<and> IsNull eachVal \<longrightarrow>
            decodeDynamicSpec b blockS rawSpec =
              Inr (None, specDiags @ eachDiags @ [Diagnostic DiagError
                ''Invalid dynamic for_each value''
                ''Cannot use a null value in for_each.''
                (Some (ExprRange (Expr eachAttr))) (Some (Expr eachAttr)) (ctx b)]))
       \<and> ((CanIterateElements (fst (Unmark eachVal)) \<or> Type eachVal = cty_DynamicPseudoType)
            \<and> \<not> IsNull eachVal \<longrightarrow>
            decodeDynamicSpec b blockS rawSpec =
              decodeDynamicSpec_iterator blockS rawSpec specContent eachVal (specDiags @ eachDiags)
            \<and> (iteratorAccepted specContent \<and> labelsAccepted blockS specContent
                 \<and> length (Blocks specContent) = 1 \<and> LabelRanges rawSpec \<noteq> [] \<longrightarrow>
               (\<exists>spec. decodeDynamicSpec b blockS rawSpec =
                    Inr (Some spec, specDiags @ eachDiags @ iteratorDiags specContent
                           @ labelsDiags specContent)
                  \<and> forEachVal spec = eachVal)))"
proof (intro conjI impI)
  assume "\<not> CanIterateElements (fst (Unmark eachVal)) \<and> Type eachVal \<noteq> cty_DynamicPseudoType"
  with assms show "decodeDynamicSpec b blockS rawSpec =
              Inr (None, specDiags @ eachDiags @ [Diagnostic DiagError
                ''Invalid dynamic for_each value''
                (''Cannot use a '' @ FriendlyName (Type eachVal)
                   @ '' value in for_each. An iterable collection is required.'')
                (Some (ExprRange (Expr eachAttr))) (Some (Expr eachAttr)) (ctx b)])"
    by (simp add: decodeDynamicSpec_def)
next
  assume "(CanIterateElements (fst (Unmark eachVal)) \<or> Type eachVal = cty_DynamicPseudoType)
            \<and> IsNull eachVal"
  with assms show "decodeDynamicSpec b blockS rawSpec =
              Inr (None, specDiags @ eachDiags @ [Diagnostic DiagError
                ''Invalid dynamic for_each value''
                ''Cannot use a null value in for_each.''
                (Some (ExprRange (Expr eachAttr))) (Some (Expr eachAttr)) (ctx b)])"
    by (auto simp add: decodeDynamicSpec_def)
next
  assume ok: "(CanIterateElements (fst (Unmark eachVal)) \<or> Type eachVal = cty_DynamicPseudoType)
            \<and> \<not> IsNull eachVal"
  then have acc: "forEachAccepted eachVal"
    by (simp add: forEachAccepted_def)
  show "decodeDynamicSpec b blockS rawSpec =
      decodeDynamicSpec_iterator blockS rawSpec specContent eachVal (specDiags @ eachDiags)"
    by (rule decodeDynamicSpec_forEach_passes [OF assms acc])
  assume rest: "iteratorAccepted specContent \<and> labelsAccepted blockS specContent
                 \<and> length (Blocks specContent) = 1 \<and> LabelRanges rawSpec \<noteq> []"
  then have "decodeDynamicSpec b blockS rawSpec =
      decodeDynamicSpec_content blockS rawSpec specContent eachVal
        (iteratorNameOf blockS specContent) (labelExprsOf specContent)
        (specDiags @ eachDiags @ iteratorDiags specContent @ labelsDiags specContent)"
    by (intro decodeDynamicSpec_reaches_content [OF assms acc]) simp_all
  with rest show "\<exists>spec. decodeDynamicSpec b blockS rawSpec =
                    Inr (Some spec, specDiags @ eachDiags @ iteratorDiags specContent
                           @ labelsDiags specContent)
                  \<and> forEachVal spec = eachVal"
    by (auto simp add: decodeDynamicSpec_content_def split: list.splits)
qed

theorem decodeDynamicSpec_for_each_witness:
  "decodeDynamicSpec topBody exS
       (dynamicBlock ''a'' (feAttrs (Mark (StringVal ''x'') ''boop'')) [contentBlock 5]) =
     Inr (None, [Diagnostic DiagError ''Invalid dynamic for_each value''
        ''Cannot use a string value in for_each. An iterable collection is required.''
        (Some (rangeAt 2)) (Some (literalExpr (Mark (StringVal ''x'') ''boop'') (rangeAt 2))) None])
   \<and> decodeDynamicSpec topBody exS
       (dynamicBlock ''a'' (feAttrs (NullVal cty_DynamicPseudoType)) [contentBlock 5]) =
     Inr (None, [Diagnostic DiagError ''Invalid dynamic for_each value''
        ''Cannot use a null value in for_each.''
        (Some (rangeAt 2)) (Some (literalExpr (NullVal cty_DynamicPseudoType) (rangeAt 2))) None])
   \<and> decodeDynamicSpec topBody exS
       (dynamicBlock ''a'' (feAttrs DynamicVal) [contentBlock 5]) =
     Inr (Some \<lparr>blockType = ''a'', blockTypeRange = rangeAt 1, defRange = rangeAt 1,
                forEachVal = DynamicVal, iteratorName = ''a'', labelExprs = [],
                contentBody = staticBody Map.empty []\<rparr>, [])
   \<and> decodeDynamicSpec topBody exS
       (dynamicBlock ''a'' (feAttrs (Mark threeStrings ''boop'')) [contentBlock 5]) =
     Inr (Some \<lparr>blockType = ''a'', blockTypeRange = rangeAt 1, defRange = rangeAt 1,
                forEachVal = Mark threeStrings ''boop'', iteratorName = ''a'', labelExprs = [],
                contentBody = staticBody Map.empty []\<rparr>, [])"
  using decodeDynamicSpec_for_each [where b = topBody and blockS = exS
      and rawSpec = "dynamicBlock ''a'' (feAttrs (Mark (StringVal ''x'') ''boop'')) [contentBlock 5]"
      and specContent = "BodyContent (feAttrs (Mark (StringVal ''x'') ''boop'')) [contentBlock 5] (rangeAt 0)"
      and specDiags = "[]" and eachVal = "Mark (StringVal ''x'') ''boop''" and eachDiags = "[]"
      and eachAttr = "attr ''for_each'' (literalExpr (Mark (StringVal ''x'') ''boop'') (rangeAt 2))"]
    decodeDynamicSpec_for_each [where b = topBody and blockS = exS
      and rawSpec = "dynamicBlock ''a'' (feAttrs (NullVal cty_DynamicPseudoType)) [contentBlock 5]"
      and specContent = "BodyContent (feAttrs (NullVal cty_DynamicPseudoType)) [contentBlock 5] (rangeAt 0)"
      and specDiags = "[]" and eachVal = "NullVal cty_DynamicPseudoType" and eachDiags = "[]"
      and eachAttr = "attr ''for_each'' (literalExpr (NullVal cty_DynamicPseudoType) (rangeAt 2))"]
    decodeDynamicSpec_for_each [where b = topBody and blockS = exS
      and rawSpec = "dynamicBlock ''a'' (feAttrs DynamicVal) [contentBlock 5]"
      and specContent = "BodyContent (feAttrs DynamicVal) [contentBlock 5] (rangeAt 0)"
      and specDiags = "[]" and eachVal = "DynamicVal" and eachDiags = "[]"
      and eachAttr = "attr ''for_each'' (literalExpr DynamicVal (rangeAt 2))"]
    decodeDynamicSpec_for_each [where b = topBody and blockS = exS
      and rawSpec = "dynamicBlock ''a'' (feAttrs (Mark threeStrings ''boop'')) [contentBlock 5]"
      and specContent = "BodyContent (feAttrs (Mark threeStrings ''boop'')) [contentBlock 5] (rangeAt 0)"
      and specDiags = "[]" and eachVal = "Mark threeStrings ''boop''" and eachDiags = "[]"
      and eachAttr = "attr ''for_each'' (literalExpr (Mark threeStrings ''boop'') (rangeAt 2))"]
  by (simp add: decodeDynamicSpec_iterator_def decodeDynamicSpec_labels_def
      decodeDynamicSpec_content_def
      dynamicBlock_def staticBody_def attr_def literalExpr_def topBody_def
      threeStrings_def contentBlock_def exS_def feAttrs_def Mark_def DynamicVal_def
      iteratorAccepted_def labelsAccepted_def iteratorDiags_def labelsDiags_def
      CanIterateElements_def IsNull_def)

text \<open>
  The claim as first stated has every null \<^verbatim>\<open>for_each\<close> fail with the error about
  null. A null of type string is refused as not iterable instead.
\<close>

theorem decodeDynamicSpec_for_each_counterexample:
  "IsNull (NullVal cty_String)
   \<and> decodeDynamicSpec topBody exS
       (dynamicBlock ''a'' (feAttrs (NullVal cty_String)) [contentBlock 5]) =
     Inr (None, [Diagnostic DiagError ''Invalid dynamic for_each value''
        ''Cannot use a string value in for_each. An iterable collection is required.''
        (Some (rangeAt 2)) (Some (literalExpr (NullVal cty_String) (rangeAt 2))) None])"
  by (simp add: decodeDynamicSpec_def dynamicBlockBodySchema_def
      dynamicBlock_def staticBody_def attr_def literalExpr_def topBody_def
      contentBlock_def exS_def feAttrs_def CanIterateElements_def IsNull_def)

subsection \<open>All or nothing\<close>

text \<open>
  C10 (as amended). \<^verbatim>\<open>decodeDynamicSpec\<close> returns a nil spec only together with an
  error diagnostic. When it returns a spec, every validation step has passed (the content
  had no errors, \<^verbatim>\<open>for_each\<close>, \<^verbatim>\<open>iterator\<close> and \<^verbatim>\<open>labels\<close> were accepted, there is
  exactly one content block), and the diagnostics returned with the spec contain an error
  exactly when the evaluation of the \<^verbatim>\<open>for_each\<close> expression reported one: that evaluation
  is the one step whose diagnostics are appended without a test. Conversely, when every
  validation step passes and the block has a label range, a spec is returned.
\<close>

theorem decodeDynamicSpec_all_or_nothing:
  assumes "Content (Body rawSpec) (dynamicBlockBodySchema blockS) = (specContent, specDiags)"
  shows "(\<forall>ds. decodeDynamicSpec b blockS rawSpec = Inr (None, ds) \<longrightarrow> HasErrors ds)
       \<and> (\<forall>spec ds. decodeDynamicSpec b blockS rawSpec = Inr (Some spec, ds) \<longrightarrow>
            (\<exists>eachAttr. Attributes specContent ''for_each'' = Some eachAttr
               \<and> forEachAccepted (fst (ExprValue (Expr eachAttr) (ctx b)))
               \<and> (HasErrors ds \<longleftrightarrow> HasErrors (snd (ExprValue (Expr eachAttr) (ctx b)))))
            \<and> \<not> HasErrors specDiags \<and> iteratorAccepted specContent
            \<and> labelsAccepted blockS specContent \<and> length (Blocks specContent) = 1)
       \<and> (\<not> HasErrors specDiags
            \<and> (\<exists>eachAttr. Attributes specContent ''for_each'' = Some eachAttr
                  \<and> forEachAccepted (fst (ExprValue (Expr eachAttr) (ctx b))))
            \<and> iteratorAccepted specContent \<and> labelsAccepted blockS specContent
            \<and> length (Blocks specContent) = 1 \<and> LabelRanges rawSpec \<noteq> []
          \<longrightarrow> (\<exists>spec ds. decodeDynamicSpec b blockS rawSpec = Inr (Some spec, ds)))"
proof (intro conjI allI impI)
  fix ds
  assume "decodeDynamicSpec b blockS rawSpec = Inr (None, ds)"
  then show "HasErrors ds" by (rule decodeDynamicSpec_None)
next
  fix spec ds
  assume res: "decodeDynamicSpec b blockS rawSpec = Inr (Some spec, ds)"
  note inv = decodeDynamicSpec_Some [OF res assms]
  from inv obtain eachAttr where e: "Attributes specContent ''for_each'' = Some eachAttr"
    and acc: "forEachAccepted (fst (ExprValue (Expr eachAttr) (ctx b)))"
    and ds: "ds = specDiags @ snd (ExprValue (Expr eachAttr) (ctx b))
                 @ iteratorDiags specContent @ labelsDiags specContent"
    by blast
  from inv have "\<not> HasErrors specDiags" "\<not> HasErrors (iteratorDiags specContent)"
    "\<not> HasErrors (labelsDiags specContent)"
    by (auto dest: iteratorAccepted_no_errors labelsAccepted_no_errors)
  with ds have "HasErrors ds \<longleftrightarrow> HasErrors (snd (ExprValue (Expr eachAttr) (ctx b)))"
    by simp
  with e acc show "\<exists>eachAttr. Attributes specContent ''for_each'' = Some eachAttr
               \<and> forEachAccepted (fst (ExprValue (Expr eachAttr) (ctx b)))
               \<and> (HasErrors ds \<longleftrightarrow> HasErrors (snd (ExprValue (Expr eachAttr) (ctx b))))"
    by blast
  from inv show "\<not> HasErrors specDiags" "iteratorAccepted specContent"
    "labelsAccepted blockS specContent" "length (Blocks specContent) = 1"
    by simp_all
next
  assume ok: "\<not> HasErrors specDiags
            \<and> (\<exists>eachAttr. Attributes specContent ''for_each'' = Some eachAttr
                  \<and> forEachAccepted (fst (ExprValue (Expr eachAttr) (ctx b))))
            \<and> iteratorAccepted specContent \<and> labelsAccepted blockS specContent
            \<and> length (Blocks specContent) = 1 \<and> LabelRanges rawSpec \<noteq> []"
  then obtain eachAttr where e: "Attributes specContent ''for_each'' = Some eachAttr"
    and acc: "forEachAccepted (fst (ExprValue (Expr eachAttr) (ctx b)))"
    by blast
  have "decodeDynamicSpec b blockS rawSpec =
      decodeDynamicSpec_content blockS rawSpec specContent (fst (ExprValue (Expr eachAttr) (ctx b)))
        (iteratorNameOf blockS specContent) (labelExprsOf specContent)
        (specDiags @ snd (ExprValue (Expr eachAttr) (ctx b)) @ iteratorDiags specContent
           @ labelsDiags specContent)"
    using ok by (intro decodeDynamicSpec_reaches_content [OF assms _ e _ acc]) simp_all
  with ok show "\<exists>spec ds. decodeDynamicSpec b blockS rawSpec = Inr (Some spec, ds)"
    by (auto simp add: decodeDynamicSpec_content_def split: list.splits)
qed

theorem decodeDynamicSpec_all_or_nothing_witness:
  \<open>decodeDynamicSpec topBody exS (dynamicBlock ''a'' (feAttrs threeStrings) []) =
      Inr (None, [Diagnostic DiagError ''Missing dynamic content block''
         ''A dynamic block must have a nested block of type "content" to describe the body of each generated block.''
         (Some (rangeAt 0)) None None])
   \<and> HasErrors ([Diagnostic DiagError ''Missing dynamic content block''
         ''A dynamic block must have a nested block of type "content" to describe the body of each generated block.''
         (Some (rangeAt 0)) None None] :: Diagnostics)
   \<and> decodeDynamicSpec topBody exS (dynamicBlock ''a'' (feAttrs threeStrings) [contentBlock 5]) =
      Inr (Some \<lparr>blockType = ''a'', blockTypeRange = rangeAt 1, defRange = rangeAt 1,
                 forEachVal = threeStrings, iteratorName = ''a'', labelExprs = [],
                 contentBody = staticBody Map.empty []\<rparr>, [])
   \<and> \<not> HasErrors ([] :: Diagnostics)
   \<and> forEachAccepted threeStrings\<close>
proof -
  have c0: "Content (Body (dynamicBlock ''a'' (feAttrs threeStrings) []))
              (dynamicBlockBodySchema exS) = (BodyContent (feAttrs threeStrings) [] (rangeAt 0), [])"
    by (simp add: dynamicBlock_def staticBody_def)
  have c1: "Content (Body (dynamicBlock ''a'' (feAttrs threeStrings) [contentBlock 5]))
              (dynamicBlockBodySchema exS) =
            (BodyContent (feAttrs threeStrings) [contentBlock 5] (rangeAt 0), [])"
    by (simp add: dynamicBlock_def staticBody_def)
  have r0: \<open>decodeDynamicSpec topBody exS (dynamicBlock ''a'' (feAttrs threeStrings) []) =
      Inr (None, [Diagnostic DiagError ''Missing dynamic content block''
         ''A dynamic block must have a nested block of type "content" to describe the body of each generated block.''
         (Some (rangeAt 0)) None None])\<close>
    by (simp add: decodeDynamicSpec_def decodeDynamicSpec_iterator_def decodeDynamicSpec_labels_def
        decodeDynamicSpec_content_def dynamicBlock_def staticBody_def attr_def literalExpr_def
        topBody_def threeStrings_def feAttrs_def CanIterateElements_def IsNull_def)
  have r1: "decodeDynamicSpec topBody exS (dynamicBlock ''a'' (feAttrs threeStrings) [contentBlock 5]) =
      Inr (Some \<lparr>blockType = ''a'', blockTypeRange = rangeAt 1, defRange = rangeAt 1,
                 forEachVal = threeStrings, iteratorName = ''a'', labelExprs = [],
                 contentBody = staticBody Map.empty []\<rparr>, [])"
    by (simp add: decodeDynamicSpec_def decodeDynamicSpec_iterator_def decodeDynamicSpec_labels_def
        decodeDynamicSpec_content_def dynamicBlock_def staticBody_def attr_def literalExpr_def
        topBody_def threeStrings_def feAttrs_def contentBlock_def exS_def
        CanIterateElements_def IsNull_def)
  have e0: \<open>HasErrors ([Diagnostic DiagError ''Missing dynamic content block''
         ''A dynamic block must have a nested block of type "content" to describe the body of each generated block.''
         (Some (rangeAt 0)) None None] :: Diagnostics)\<close>
    by (rule decodeDynamicSpec_all_or_nothing
          [OF c0, of topBody, THEN conjunct1, rule_format, OF r0])
  have e1: "forEachAccepted threeStrings \<and> \<not> HasErrors ([] :: Diagnostics)"
    using decodeDynamicSpec_all_or_nothing
          [OF c1, of topBody, THEN conjunct2, THEN conjunct1, rule_format, OF r1]
    by (auto simp add: feAttrs_def attr_def literalExpr_def)
  from r0 e0 r1 e1 show ?thesis by simp
qed

text \<open>
  The claim as first stated has a spec returned only with error-free diagnostics. A
  \<^verbatim>\<open>for_each\<close> expression whose evaluation reports an error and yields the unknown
  value of dynamic type gets a spec and the error together.
\<close>

theorem decodeDynamicSpec_all_or_nothing_counterexample:
  \<open>decodeDynamicSpec topBody exS
     (dynamicBlock ''a'' [''for_each'' \<mapsto> attr ''for_each'' (failingExpr (rangeAt 2))]
        [contentBlock 5]) =
     Inr (Some \<lparr>blockType = ''a'', blockTypeRange = rangeAt 1, defRange = rangeAt 1,
                forEachVal = DynamicVal, iteratorName = ''a'', labelExprs = [],
                contentBody = staticBody Map.empty []\<rparr>,
          [Diagnostic DiagError ''Unknown variable''
             ''There is no variable named "undefined".'' (Some (rangeAt 2)) None None])
   \<and> HasErrors ([Diagnostic DiagError ''Unknown variable''
             ''There is no variable named "undefined".'' (Some (rangeAt 2)) None None]
          :: Diagnostics)\<close>
  by (simp add: decodeDynamicSpec_def decodeDynamicSpec_iterator_def decodeDynamicSpec_labels_def
      decodeDynamicSpec_content_def dynamicBlockBodySchema_def
      dynamicBlock_def staticBody_def attr_def failingExpr_def topBody_def
      contentBlock_def exS_def CanIterateElements_def IsNull_def DynamicVal_def)


subsection \<open>Labels and iterator\<close>

text \<open>
  C8. For a dynamic directive with a \<^verbatim>\<open>labels\<close> attribute whose list of expressions
  is read without error, once \<^verbatim>\<open>for_each\<close> and \<^verbatim>\<open>iterator\<close> are accepted: more label
  expressions than the target block type has label names is the error "Extraneous
  dynamic block label", whose detail names the required number and whose subject is the
  first extraneous expression; fewer is the error "Insufficient dynamic block labels",
  whose detail names the required number; and for a directive with one content block the
  decoding fails if and only if the two numbers differ. Without an \<^verbatim>\<open>iterator\<close>
  attribute every returned spec has the target block type as its iterator name. An
  \<^verbatim>\<open>iterator\<close> that is not a traversal, or is a traversal of more or less than one
  step, is a decode error.
\<close>

theorem decodeDynamicSpec_labels_iterator:
  assumes "Content (Body rawSpec) (dynamicBlockBodySchema blockS) = (specContent, specDiags)"
    and "\<not> HasErrors specDiags"
    and "Attributes specContent ''for_each'' = Some eachAttr"
    and "ExprValue (Expr eachAttr) (ctx b) = (eachVal, eachDiags)"
    and "forEachAccepted eachVal"
  shows "(iteratorAccepted specContent \<and> Attributes specContent ''labels'' = Some labelsAttr
            \<and> ExprList (Expr labelsAttr) = (lExprs, labelDiags) \<and> \<not> HasErrors labelDiags \<longrightarrow>
            (length lExprs > length (LabelNames blockS) \<longrightarrow>
               decodeDynamicSpec b blockS rawSpec =
                 Inr (None, specDiags @ eachDiags @ iteratorDiags specContent @ labelDiags
                   @ [Diagnostic DiagError ''Extraneous dynamic block label''
                        (''Blocks of type '' @ fmt_q (HeaderType blockS) @ '' require ''
                           @ fmt_d (length (LabelNames blockS)) @ '' label(s).'')
                        (Some (ExprRange (lExprs ! length (LabelNames blockS)))) None None]))
          \<and> (length lExprs < length (LabelNames blockS) \<longrightarrow>
               decodeDynamicSpec b blockS rawSpec =
                 Inr (None, specDiags @ eachDiags @ iteratorDiags specContent @ labelDiags
                   @ [Diagnostic DiagError ''Insufficient dynamic block labels''
                        (''Blocks of type '' @ fmt_q (HeaderType blockS) @ '' require ''
                           @ fmt_d (length (LabelNames blockS)) @ '' label(s).'')
                        (Some (ExprRange (Expr labelsAttr))) None None]))
          \<and> (length (Blocks specContent) = 1 \<and> LabelRanges rawSpec \<noteq> [] \<longrightarrow>
               ((\<exists>ds. decodeDynamicSpec b blockS rawSpec = Inr (None, ds))
                  \<longleftrightarrow> length lExprs \<noteq> length (LabelNames blockS))))
       \<and> (Attributes specContent ''iterator'' = None \<longrightarrow>
            (\<forall>spec ds. decodeDynamicSpec b blockS rawSpec = Inr (Some spec, ds) \<longrightarrow>
               iteratorName spec = HeaderType blockS))
       \<and> (Attributes specContent ''iterator'' = Some itAttr
            \<and> (HasErrors (snd (AbsTraversalForExpr (Expr itAttr)))
                 \<or> length (fst (AbsTraversalForExpr (Expr itAttr))) \<noteq> 1) \<longrightarrow>
            (\<exists>ds. decodeDynamicSpec b blockS rawSpec = Inr (None, ds) \<and> HasErrors ds))"
proof -
  note step = decodeDynamicSpec_forEach_passes [OF assms]
  have labels: "decodeDynamicSpec b blockS rawSpec =
      decodeDynamicSpec_labels blockS rawSpec specContent eachVal
        (iteratorNameOf blockS specContent) (specDiags @ eachDiags @ iteratorDiags specContent)"
    if "iteratorAccepted specContent"
    using that by (simp add: step decodeDynamicSpec_iterator_passes)
  have A: "length lExprs > length (LabelNames blockS) \<longrightarrow>
               decodeDynamicSpec b blockS rawSpec =
                 Inr (None, specDiags @ eachDiags @ iteratorDiags specContent @ labelDiags
                   @ [Diagnostic DiagError ''Extraneous dynamic block label''
                        (''Blocks of type '' @ fmt_q (HeaderType blockS) @ '' require ''
                           @ fmt_d (length (LabelNames blockS)) @ '' label(s).'')
                        (Some (ExprRange (lExprs ! length (LabelNames blockS)))) None None])"
    and B: "length lExprs < length (LabelNames blockS) \<longrightarrow>
               decodeDynamicSpec b blockS rawSpec =
                 Inr (None, specDiags @ eachDiags @ iteratorDiags specContent @ labelDiags
                   @ [Diagnostic DiagError ''Insufficient dynamic block labels''
                        (''Blocks of type '' @ fmt_q (HeaderType blockS) @ '' require ''
                           @ fmt_d (length (LabelNames blockS)) @ '' label(s).'')
                        (Some (ExprRange (Expr labelsAttr))) None None])"
    and C: "length (Blocks specContent) = 1 \<and> LabelRanges rawSpec \<noteq> [] \<longrightarrow>
               ((\<exists>ds. decodeDynamicSpec b blockS rawSpec = Inr (None, ds))
                  \<longleftrightarrow> length lExprs \<noteq> length (LabelNames blockS))"
    if h: "iteratorAccepted specContent \<and> Attributes specContent ''labels'' = Some labelsAttr
            \<and> ExprList (Expr labelsAttr) = (lExprs, labelDiags) \<and> \<not> HasErrors labelDiags"
  proof -
    from h have it: "iteratorAccepted specContent" by simp
    from h show "length lExprs > length (LabelNames blockS) \<longrightarrow>
               decodeDynamicSpec b blockS rawSpec =
                 Inr (None, specDiags @ eachDiags @ iteratorDiags specContent @ labelDiags
                   @ [Diagnostic DiagError ''Extraneous dynamic block label''
                        (''Blocks of type '' @ fmt_q (HeaderType blockS) @ '' require ''
                           @ fmt_d (length (LabelNames blockS)) @ '' label(s).'')
                        (Some (ExprRange (lExprs ! length (LabelNames blockS)))) None None])"
      by (simp add: labels [OF it] decodeDynamicSpec_labels_def Let_def)
    from h show "length lExprs < length (LabelNames blockS) \<longrightarrow>
               decodeDynamicSpec b blockS rawSpec =
                 Inr (None, specDiags @ eachDiags @ iteratorDiags specContent @ labelDiags
                   @ [Diagnostic DiagError ''Insufficient dynamic block labels''
                        (''Blocks of type '' @ fmt_q (HeaderType blockS) @ '' require ''
                           @ fmt_d (length (LabelNames blockS)) @ '' label(s).'')
                        (Some (ExprRange (Expr labelsAttr))) None None])"
      by (simp add: labels [OF it] decodeDynamicSpec_labels_def Let_def)
    from h show "length (Blocks specContent) = 1 \<and> LabelRanges rawSpec \<noteq> [] \<longrightarrow>
               ((\<exists>ds. decodeDynamicSpec b blockS rawSpec = Inr (None, ds))
                  \<longleftrightarrow> length lExprs \<noteq> length (LabelNames blockS))"
      by (auto simp add: labels [OF it] decodeDynamicSpec_labels_def decodeDynamicSpec_content_def
          Let_def split: list.splits)
  qed
  have D: "iteratorName spec = HeaderType blockS"
    if "Attributes specContent ''iterator'' = None"
      and "decodeDynamicSpec b blockS rawSpec = Inr (Some spec, ds)" for spec ds
    using decodeDynamicSpec_Some [OF that(2) assms(1)] that(1)
    by (simp add: iteratorNameOf_def)
  have E: "\<exists>ds. decodeDynamicSpec b blockS rawSpec = Inr (None, ds) \<and> HasErrors ds"
    if "Attributes specContent ''iterator'' = Some itAttr
            \<and> (HasErrors (snd (AbsTraversalForExpr (Expr itAttr)))
                 \<or> length (fst (AbsTraversalForExpr (Expr itAttr))) \<noteq> 1)"
    using that by (auto simp add: step decodeDynamicSpec_iterator_def Let_def)
  from A B C D E show ?thesis by blast
qed

theorem decodeDynamicSpec_labels_iterator_witness:
  \<open>decodeDynamicSpec topBody exS1
      (dynamicBlock ''a'' (flAttrs threeStrings [labelLit 3, labelLit 4]) [contentBlock 5]) =
     Inr (None, [Diagnostic DiagError ''Extraneous dynamic block label''
        ''Blocks of type "a" require 1 label(s).'' (Some (rangeAt 4)) None None])
   \<and> decodeDynamicSpec topBody exS1
      (dynamicBlock ''a'' (flAttrs threeStrings []) [contentBlock 5]) =
     Inr (None, [Diagnostic DiagError ''Insufficient dynamic block labels''
        ''Blocks of type "a" require 1 label(s).'' (Some (rangeAt 7)) None None])
   \<and> decodeDynamicSpec topBody exS1
      (dynamicBlock ''a'' (flAttrs threeStrings [labelLit 3]) [contentBlock 5]) =
     Inr (Some \<lparr>blockType = ''a'', blockTypeRange = rangeAt 1, defRange = rangeAt 1,
                forEachVal = threeStrings, iteratorName = ''a'', labelExprs = [labelLit 3],
                contentBody = staticBody Map.empty []\<rparr>, [])
   \<and> decodeDynamicSpec topBody exS
      (dynamicBlock ''a'' (fiAttrs threeStrings (labelLit 8)) [contentBlock 5]) =
     Inr (None, notTraversal (rangeAt 8))
   \<and> HasErrors (notTraversal (rangeAt 8))\<close>
proof -
  have acc: "forEachAccepted threeStrings"
    by (simp add: forEachAccepted_def threeStrings_def CanIterateElements_def IsNull_def)
  have v: "ExprValue (Expr (attr ''for_each'' (literalExpr threeStrings (rangeAt 2)))) (ctx topBody)
             = (threeStrings, [])"
    by (simp add: attr_def literalExpr_def)
  have ne: "\<not> HasErrors ([] :: Diagnostics)" by simp
  note inst = decodeDynamicSpec_labels_iterator [where b = topBody and specDiags = "[]"
      and eachVal = threeStrings and eachDiags = "[]"
      and eachAttr = "attr ''for_each'' (literalExpr threeStrings (rangeAt 2))", OF _ ne _ v acc]
  have many: \<open>decodeDynamicSpec topBody exS1
      (dynamicBlock ''a'' (flAttrs threeStrings [labelLit 3, labelLit 4]) [contentBlock 5]) =
     Inr (None, [Diagnostic DiagError ''Extraneous dynamic block label''
        ''Blocks of type "a" require 1 label(s).'' (Some (rangeAt 4)) None None])\<close>
    using inst [where blockS = exS1
        and rawSpec = "dynamicBlock ''a'' (flAttrs threeStrings [labelLit 3, labelLit 4]) [contentBlock 5]"
        and specContent = "BodyContent (flAttrs threeStrings [labelLit 3, labelLit 4]) [contentBlock 5] (rangeAt 0)"
        and labelsAttr = "attr ''labels'' (listExpr [labelLit 3, labelLit 4] (rangeAt 7))"
        and lExprs = "[labelLit 3, labelLit 4]" and labelDiags = "[]"]
    by (simp add: dynamicBlock_def staticBody_def flAttrs_def attr_def listExpr_def exS1_def
        iteratorAccepted_def iteratorDiags_def fmt_q_def fmt_d.simps digit_def labelLit_def
        literalExpr_def)
  have few: \<open>decodeDynamicSpec topBody exS1
      (dynamicBlock ''a'' (flAttrs threeStrings []) [contentBlock 5]) =
     Inr (None, [Diagnostic DiagError ''Insufficient dynamic block labels''
        ''Blocks of type "a" require 1 label(s).'' (Some (rangeAt 7)) None None])\<close>
    using inst [where blockS = exS1
        and rawSpec = "dynamicBlock ''a'' (flAttrs threeStrings []) [contentBlock 5]"
        and specContent = "BodyContent (flAttrs threeStrings []) [contentBlock 5] (rangeAt 0)"
        and labelsAttr = "attr ''labels'' (listExpr [] (rangeAt 7))"
        and lExprs = "[]" and labelDiags = "[]"]
    by (simp add: dynamicBlock_def staticBody_def flAttrs_def attr_def listExpr_def exS1_def
        iteratorAccepted_def iteratorDiags_def fmt_q_def fmt_d.simps digit_def)
  have one: "decodeDynamicSpec topBody exS1
      (dynamicBlock ''a'' (flAttrs threeStrings [labelLit 3]) [contentBlock 5]) =
     Inr (Some \<lparr>blockType = ''a'', blockTypeRange = rangeAt 1, defRange = rangeAt 1,
                forEachVal = threeStrings, iteratorName = ''a'', labelExprs = [labelLit 3],
                contentBody = staticBody Map.empty []\<rparr>, [])"
    by (simp add: decodeDynamicSpec_def decodeDynamicSpec_iterator_def decodeDynamicSpec_labels_def
        decodeDynamicSpec_content_def dynamicBlock_def staticBody_def flAttrs_def attr_def
        listExpr_def exS1_def literalExpr_def topBody_def threeStrings_def contentBlock_def
        CanIterateElements_def IsNull_def)
  have name: "iteratorName \<lparr>blockType = ''a'', blockTypeRange = rangeAt 1, defRange = rangeAt 1,
                forEachVal = threeStrings, iteratorName = ''a'', labelExprs = [labelLit 3],
                contentBody = staticBody Map.empty []\<rparr> = HeaderType exS1"
    using inst [where blockS = exS1
        and rawSpec = "dynamicBlock ''a'' (flAttrs threeStrings [labelLit 3]) [contentBlock 5]"
        and specContent = "BodyContent (flAttrs threeStrings [labelLit 3]) [contentBlock 5] (rangeAt 0)",
        THEN conjunct2, THEN conjunct1, rule_format, OF _ _ _ one]
    by (simp add: dynamicBlock_def staticBody_def flAttrs_def)
  have bad: "\<exists>ds. decodeDynamicSpec topBody exS
      (dynamicBlock ''a'' (fiAttrs threeStrings (labelLit 8)) [contentBlock 5]) = Inr (None, ds)
      \<and> HasErrors ds"
    using inst [where blockS = exS
        and rawSpec = "dynamicBlock ''a'' (fiAttrs threeStrings (labelLit 8)) [contentBlock 5]"
        and specContent = "BodyContent (fiAttrs threeStrings (labelLit 8)) [contentBlock 5] (rangeAt 0)"
        and itAttr = "attr ''iterator'' (labelLit 8)"]
    by (simp add: dynamicBlock_def staticBody_def fiAttrs_def attr_def labelLit_def
        literalExpr_def notTraversal_def)
  have badv: "decodeDynamicSpec topBody exS
      (dynamicBlock ''a'' (fiAttrs threeStrings (labelLit 8)) [contentBlock 5]) =
     Inr (None, notTraversal (rangeAt 8))"
    by (simp add: decodeDynamicSpec_def decodeDynamicSpec_iterator_def
        dynamicBlock_def staticBody_def fiAttrs_def attr_def labelLit_def
        literalExpr_def topBody_def threeStrings_def notTraversal_def
        CanIterateElements_def IsNull_def)
  from bad badv have "HasErrors (notTraversal (rangeAt 8))" by auto
  with many few one badv show ?thesis by simp
qed

section \<open>Properties of the building of a block\<close>

lemma newBlock_labels_good_prefix:
  assumes "\<forall>p \<in> set pre. goodLabel X lCtx p"
  shows "newBlock_labels X lCtx (pre @ rest) labels labelRanges diags =
         newBlock_labels X lCtx rest (labels @ map (\<lambda>p. the (labelString X lCtx p)) pre)
           (labelRanges @ map ExprRange pre) (diags @ labelEvalDiags lCtx pre)"
  using assms
proof (induction pre arbitrary: labels labelRanges diags)
  case Nil
  then show ?case by (simp add: labelEvalDiags_def)
next
  case (Cons p pre)
  from Cons.prems have good: "goodLabel X lCtx p" and rest: "\<forall>q \<in> set pre. goodLabel X lCtx q"
    by simp_all
  from good obtain s where conv: "Convert_String X (fst (ExprValue p lCtx)) = Inr (StringVal s)"
    and ls: "labelString X lCtx p = Some s"
    by (auto simp add: goodLabel_def labelString_def split: sum.splits cty_Value.splits)
  from good have ne: "\<not> HasErrors (snd (ExprValue p lCtx))"
    by (simp add: goodLabel_def)
  have "newBlock_labels X lCtx ((p # pre) @ rest) labels labelRanges diags =
        newBlock_labels X lCtx (pre @ rest) (labels @ [s]) (labelRanges @ [ExprRange p])
          (diags @ snd (ExprValue p lCtx))"
    using conv ne by (simp add: Let_def IsNull_def IsKnown_def AsString_def)
  also have "\<dots> = newBlock_labels X lCtx rest
      ((labels @ [s]) @ map (\<lambda>p. the (labelString X lCtx p)) pre)
      ((labelRanges @ [ExprRange p]) @ map ExprRange pre)
      ((diags @ snd (ExprValue p lCtx)) @ labelEvalDiags lCtx pre)"
    by (rule Cons.IH [OF rest])
  finally show ?case
    using ls by (simp add: labelEvalDiags_def)
qed




subsection \<open>Unknown labels\<close>

text \<open>
  C5 (as amended). When the label expressions of a generated element are evaluated in
  order, the ones before being good labels, and one evaluates without error to an unknown
  value whose type converts to string (string, number, bool or dynamic), then
  \<^verbatim>\<open>newBlock\<close> returns no block and adds no diagnostic of its own: it returns the
  diagnostics of the evaluations and nothing else. The outcome for one element is a
  function of that element's iteration alone, so the blocks of the other elements are
  built as if this one were absent.
\<close>

theorem newBlock_unknown_label:
  assumes "labelExprs s = pre @ e # post"
    and "\<forall>p \<in> set pre. goodLabel X (IterationEvalContext i c) p"
    and "ExprValue e (IterationEvalContext i c) = (labelVal, labelDiags)"
    and "\<not> HasErrors labelDiags"
    and "\<not> IsKnown labelVal"
    and "hasStringConversion (Type labelVal)"
  shows "newBlock X s i c =
           Inr (None, labelEvalDiags (IterationEvalContext i c) pre @ labelDiags)"
proof -
  let ?lCtx = "IterationEvalContext i c"
  from Convert_String_conversion [OF assms(6), of X] assms(5)
  obtain lv where conv: "Convert_String X labelVal = Inr lv" and unk: "\<not> IsKnown lv" and nn: "\<not> IsNull lv"
    by (auto simp add: IsKnown_def IsNull_def split: cty_Value.splits)
  have "newBlock_labels X ?lCtx (labelExprs s) [] [] [] =
        newBlock_labels X ?lCtx (e # post) (map (\<lambda>p. the (labelString X ?lCtx p)) pre)
          (map ExprRange pre) (labelEvalDiags ?lCtx pre)"
    using newBlock_labels_good_prefix [OF assms(2), of "e # post" "[]" "[]" "[]"] assms(1)
    by simp
  also have "\<dots> = Inr (None, labelEvalDiags ?lCtx pre @ labelDiags)"
    using assms(3,4) conv unk nn by (simp add: Let_def)
  finally show ?thesis
    by (simp add: newBlock_def)
qed

theorem newBlock_unknown_label_witness:
  "newBlock exX (labelledSpec [iteratorValueExpr ''a'' (rangeAt 3)])
       (MakeChild None ''a'' (NumberVal 1) (UnknownVal cty_String)) None = Inr (None, [])
   \<and> newBlock exX (labelledSpec [iteratorValueExpr ''a'' (rangeAt 3)])
       (MakeChild None ''a'' (NumberVal 0) (StringVal ''x'')) None =
     Inr (Some (Block ''a'' [''x''] (staticBody Map.empty []) (rangeAt 1) (rangeAt 1) [rangeAt 3]), [])
   \<and> newBlock exX (labelledSpec [iteratorValueExpr ''a'' (rangeAt 3)])
       (MakeChild None ''a'' (NumberVal 2) (StringVal ''z'')) None =
     Inr (Some (Block ''a'' [''z''] (staticBody Map.empty []) (rangeAt 1) (rangeAt 1) [rangeAt 3]), [])"
proof -
  have skip: "newBlock exX (labelledSpec [iteratorValueExpr ''a'' (rangeAt 3)])
       (MakeChild None ''a'' (NumberVal 1) (UnknownVal cty_String)) None = Inr (None, [])"
    using newBlock_unknown_label [where X = exX
        and s = "labelledSpec [iteratorValueExpr ''a'' (rangeAt 3)]"
        and i = "MakeChild None ''a'' (NumberVal 1) (UnknownVal cty_String)" and c = None
        and pre = "[]" and e = "iteratorValueExpr ''a'' (rangeAt 3)" and post = "[]"
        and labelVal = "UnknownVal cty_String" and labelDiags = "[]"]
    by (simp add: labelledSpec_def iteratorValueExpr_def MakeChild_def IterationEvalContext_def
        IterationObject_def IsKnown_def hasStringConversion_def labelEvalDiags_def)
  have others: "newBlock exX (labelledSpec [iteratorValueExpr ''a'' (rangeAt 3)])
       (MakeChild None ''a'' (NumberVal 0) (StringVal ''x'')) None =
     Inr (Some (Block ''a'' [''x''] (staticBody Map.empty []) (rangeAt 1) (rangeAt 1) [rangeAt 3]), [])"
    "newBlock exX (labelledSpec [iteratorValueExpr ''a'' (rangeAt 3)])
       (MakeChild None ''a'' (NumberVal 2) (StringVal ''z'')) None =
     Inr (Some (Block ''a'' [''z''] (staticBody Map.empty []) (rangeAt 1) (rangeAt 1) [rangeAt 3]), [])"
    by (simp_all add: newBlock_def labelledSpec_def iteratorValueExpr_def MakeChild_def
        IterationEvalContext_def IterationObject_def Convert_String_def IsKnown_def IsNull_def
        AsString_def)
  from skip others show ?thesis by simp
qed

text \<open>
  The claim as first stated has every unknown label skipped without a diagnostic. The
  conversion to string comes before the test for unknown, so an unknown list of strings
  is refused with "Invalid dynamic block label".
\<close>

theorem newBlock_unknown_label_counterexample:
  "\<not> IsKnown (UnknownVal (cty_List cty_String))
   \<and> newBlock exX (labelledSpec [literalExpr (UnknownVal (cty_List cty_String)) (rangeAt 3)])
       (MakeChild None ''a'' (NumberVal 0) (StringVal ''x'')) None =
     Inr (None, [Diagnostic DiagError ''Invalid dynamic block label''
        ''Cannot use this value as a dynamic block label: string required.''
        (Some (rangeAt 3)) (Some (literalExpr (UnknownVal (cty_List cty_String)) (rangeAt 3)))
        (IterationEvalContext (MakeChild None ''a'' (NumberVal 0) (StringVal ''x'')) None)])"
  by (simp add: newBlock_def labelledSpec_def literalExpr_def Convert_String_def exX_def
      IsKnown_def)

subsection \<open>Marked labels\<close>




section \<open>Properties of the decoding of meta-arguments\<close>

subsection \<open>The \<^verbatim>\<open>count\<close> value\<close>

text \<open>
  C4 (as amended). For a block with a \<^verbatim>\<open>count\<close> attribute whose content was read
  without error, the value taken with its marks set aside: a null count fails with "The
  given "count" argument value is null. An integer is required."; a known count that does
  not convert to a number fails with "Incorrect value type", the detail citing the
  conversion error; a count that converts to a number but not to a Go \<^verbatim>\<open>int\<close> (it is
  not whole, or out of range) fails with "Invalid count argument", the detail citing that
  error; a count that converts to a negative \<^verbatim>\<open>int\<close>, such as every negative whole
  number from the least 64-bit integer on, fails with the detail "... negative numbers are
  not supported."; an unknown count gets no diagnostic at all and the decoding goes on
  with \<^verbatim>\<open>for_each\<close>.
\<close>

theorem decodeMetaArgSpec_count:
  assumes "PartialContent (Body rawSpec) expandableBlockBodySchema = (specContent, specDiags)"
    and "\<not> HasErrors specDiags"
    and "Attributes specContent ''count'' = Some countAttr"
    and "ExprValue (Expr countAttr) (ctx b) = (v, countDiags)"
    and "spec0 = \<lparr>rawBlock = rawSpec, countSet = True, countVal = Some (fst (Unmark v)),
                   countNum = 0, forEachSet = False, forEachVal' = None\<rparr>"
  shows \<open>(IsNull v \<longrightarrow>
            decodeMetaArgSpec X b rawSpec =
              (spec0, specDiags @ countDiags @ [Diagnostic DiagError ''Invalid count argument''
                 ''The given "count" argument value is null. An integer is required.''
                 (Some (ExprRange (Expr countAttr))) (Some (Expr countAttr)) (ctx b)]))
       \<and> (IsKnown v \<and> \<not> IsNull v \<and> Convert_Number X (fst (Unmark v)) = Inl convErr \<longrightarrow>
            decodeMetaArgSpec X b rawSpec =
              (spec0, specDiags @ countDiags @ [Diagnostic DiagError ''Incorrect value type''
                 (''Invalid expression value: '' @ FormatError X convErr @ ''.'')
                 (Some (ExprRange (Expr countAttr))) (Some (Expr countAttr)) (ctx b)]))
       \<and> (IsKnown v \<and> \<not> IsNull v \<and> Convert_Number X (fst (Unmark v)) = Inr nv
            \<and> FromCtyValue_int nv = Inl err \<longrightarrow>
            decodeMetaArgSpec X b rawSpec =
              (spec0, specDiags @ countDiags @ [Diagnostic DiagError ''Invalid count argument''
                 (''The given "count" argument value is unsuitable: '' @ err @ ''.'')
                 (Some (ExprRange (Expr countAttr))) (Some (Expr countAttr)) (ctx b)]))
       \<and> (IsKnown v \<and> \<not> IsNull v \<and> Convert_Number X (fst (Unmark v)) = Inr nv
            \<and> FromCtyValue_int nv = Inr n \<and> n < 0 \<longrightarrow>
            decodeMetaArgSpec X b rawSpec =
              (spec0\<lparr>countNum := n\<rparr>, specDiags @ countDiags @ [Diagnostic DiagError
                 ''Invalid count argument''
                 ''The given "count" argument value is unsuitable: negative numbers are not supported.''
                 (Some (ExprRange (Expr countAttr))) (Some (Expr countAttr)) (ctx b)]))
       \<and> (fst (Unmark v) = NumberVal (of_int n) \<and> MinInt64 \<le> n \<and> n < 0 \<longrightarrow>
            decodeMetaArgSpec X b rawSpec =
              (spec0\<lparr>countNum := n\<rparr>, specDiags @ countDiags @ [Diagnostic DiagError
                 ''Invalid count argument''
                 ''The given "count" argument value is unsuitable: negative numbers are not supported.''
                 (Some (ExprRange (Expr countAttr))) (Some (Expr countAttr)) (ctx b)]))
       \<and> (\<not> IsKnown v \<longrightarrow>
            decodeMetaArgSpec X b rawSpec =
              decodeMetaArgSpec_forEach X b specContent spec0 (specDiags @ countDiags)
            \<and> (Attributes specContent ''for_each'' = None \<longrightarrow>
                 decodeMetaArgSpec X b rawSpec = (spec0, specDiags @ countDiags)))\<close>
proof (intro conjI impI)
  assume "IsNull v"
  with assms show \<open>decodeMetaArgSpec X b rawSpec =
              (spec0, specDiags @ countDiags @ [Diagnostic DiagError ''Invalid count argument''
                 ''The given "count" argument value is null. An integer is required.''
                 (Some (ExprRange (Expr countAttr))) (Some (Expr countAttr)) (ctx b)])\<close>
    by (simp add: decodeMetaArgSpec_def IsNull_IsKnown Let_def)
next
  assume "IsKnown v \<and> \<not> IsNull v \<and> Convert_Number X (fst (Unmark v)) = Inl convErr"
  with assms show "decodeMetaArgSpec X b rawSpec =
              (spec0, specDiags @ countDiags @ [Diagnostic DiagError ''Incorrect value type''
                 (''Invalid expression value: '' @ FormatError X convErr @ ''.'')
                 (Some (ExprRange (Expr countAttr))) (Some (Expr countAttr)) (ctx b)])"
    by (simp add: decodeMetaArgSpec_def Let_def)
next
  assume "IsKnown v \<and> \<not> IsNull v \<and> Convert_Number X (fst (Unmark v)) = Inr nv
            \<and> FromCtyValue_int nv = Inl err"
  with assms show \<open>decodeMetaArgSpec X b rawSpec =
              (spec0, specDiags @ countDiags @ [Diagnostic DiagError ''Invalid count argument''
                 (''The given "count" argument value is unsuitable: '' @ err @ ''.'')
                 (Some (ExprRange (Expr countAttr))) (Some (Expr countAttr)) (ctx b)])\<close>
    by (simp add: decodeMetaArgSpec_def Let_def)
next
  assume "IsKnown v \<and> \<not> IsNull v \<and> Convert_Number X (fst (Unmark v)) = Inr nv
            \<and> FromCtyValue_int nv = Inr n \<and> n < 0"
  with assms show \<open>decodeMetaArgSpec X b rawSpec =
              (spec0\<lparr>countNum := n\<rparr>, specDiags @ countDiags @ [Diagnostic DiagError
                 ''Invalid count argument''
                 ''The given "count" argument value is unsuitable: negative numbers are not supported.''
                 (Some (ExprRange (Expr countAttr))) (Some (Expr countAttr)) (ctx b)])\<close>
    by (simp add: decodeMetaArgSpec_def Let_def)
next
  assume h: "fst (Unmark v) = NumberVal (of_int n) \<and> MinInt64 \<le> n \<and> n < 0"
  then have "IsKnown v" "\<not> IsNull v" "Convert_Number X (fst (Unmark v)) = Inr (NumberVal (of_int n))"
    "FromCtyValue_int (NumberVal (of_int n)) = Inr n"
    by (simp_all add: IsKnown_def IsNull_def Convert_Number_def FromCtyValue_int_def MaxInt64_def)
  moreover have "IsKnown (NumberVal (of_int n))" "\<not> IsNull (NumberVal (of_int n))"
    by (simp_all add: IsKnown_def IsNull_def)
  ultimately show \<open>decodeMetaArgSpec X b rawSpec =
              (spec0\<lparr>countNum := n\<rparr>, specDiags @ countDiags @ [Diagnostic DiagError
                 ''Invalid count argument''
                 ''The given "count" argument value is unsuitable: negative numbers are not supported.''
                 (Some (ExprRange (Expr countAttr))) (Some (Expr countAttr)) (ctx b)])\<close>
    using assms h by (simp add: decodeMetaArgSpec_def Let_def)
next
  assume u: "\<not> IsKnown v"
  with assms show r: "decodeMetaArgSpec X b rawSpec =
              decodeMetaArgSpec_forEach X b specContent spec0 (specDiags @ countDiags)"
    by (simp add: decodeMetaArgSpec_def Let_def)
  assume "Attributes specContent ''for_each'' = None"
  then show "decodeMetaArgSpec X b rawSpec = (spec0, specDiags @ countDiags)"
    by (simp add: r decodeMetaArgSpec_forEach_def)
qed

theorem decodeMetaArgSpec_count_witness:
  \<open>decodeMetaArgSpec exX topBody (metaBlock (countAttrs (NullVal cty_Number))) =
     (\<lparr>rawBlock = metaBlock (countAttrs (NullVal cty_Number)),
       countSet = True, countVal = Some (NullVal cty_Number), countNum = 0,
       forEachSet = False, forEachVal' = None\<rparr>,
      [Diagnostic DiagError ''Invalid count argument''
         ''The given "count" argument value is null. An integer is required.''
         (Some (rangeAt 2)) (Some (literalExpr (NullVal cty_Number) (rangeAt 2))) None])
   \<and> decodeMetaArgSpec exX topBody (metaBlock (countAttrs (BoolVal True))) =
     (\<lparr>rawBlock = metaBlock (countAttrs (BoolVal True)),
       countSet = True, countVal = Some (BoolVal True), countNum = 0,
       forEachSet = False, forEachVal' = None\<rparr>,
      [Diagnostic DiagError ''Incorrect value type''
         ''Invalid expression value: number required.''
         (Some (rangeAt 2)) (Some (literalExpr (BoolVal True) (rangeAt 2))) None])
   \<and> decodeMetaArgSpec exX topBody (metaBlock (countAttrs (NumberVal (- 1)))) =
     (\<lparr>rawBlock = metaBlock (countAttrs (NumberVal (- 1))),
       countSet = True, countVal = Some (NumberVal (- 1)), countNum = - 1,
       forEachSet = False, forEachVal' = None\<rparr>,
      [Diagnostic DiagError ''Invalid count argument''
         ''The given "count" argument value is unsuitable: negative numbers are not supported.''
         (Some (rangeAt 2)) (Some (literalExpr (NumberVal (- 1)) (rangeAt 2))) None])
   \<and> decodeMetaArgSpec exX topBody (metaBlock (countAttrs (UnknownVal cty_Number))) =
     (\<lparr>rawBlock = metaBlock (countAttrs (UnknownVal cty_Number)),
       countSet = True, countVal = Some (UnknownVal cty_Number), countNum = 0,
       forEachSet = False, forEachVal' = None\<rparr>, [])\<close>
proof -
  note inst = decodeMetaArgSpec_count [where X = exX and b = topBody and specDiags = "[]"
      and countDiags = "[]", OF _ _ _ _ refl]
  have null: \<open>decodeMetaArgSpec exX topBody (metaBlock (countAttrs (NullVal cty_Number))) =
     (\<lparr>rawBlock = metaBlock (countAttrs (NullVal cty_Number)),
       countSet = True, countVal = Some (NullVal cty_Number), countNum = 0,
       forEachSet = False, forEachVal' = None\<rparr>,
      [Diagnostic DiagError ''Invalid count argument''
         ''The given "count" argument value is null. An integer is required.''
         (Some (rangeAt 2)) (Some (literalExpr (NullVal cty_Number) (rangeAt 2))) None])\<close>
    using inst [where rawSpec = "metaBlock (countAttrs (NullVal cty_Number))"
        and specContent = "BodyContent (countAttrs (NullVal cty_Number)) [] (rangeAt 0)"
        and countAttr = "attr ''count'' (literalExpr (NullVal cty_Number) (rangeAt 2))"
        and v = "NullVal cty_Number"]
    by (simp add: metaBlock_def countAttrs_def staticBody_def attr_def literalExpr_def
        topBody_def IsNull_def)
  have conv: \<open>decodeMetaArgSpec exX topBody (metaBlock (countAttrs (BoolVal True))) =
     (\<lparr>rawBlock = metaBlock (countAttrs (BoolVal True)),
       countSet = True, countVal = Some (BoolVal True), countNum = 0,
       forEachSet = False, forEachVal' = None\<rparr>,
      [Diagnostic DiagError ''Incorrect value type''
         ''Invalid expression value: number required.''
         (Some (rangeAt 2)) (Some (literalExpr (BoolVal True) (rangeAt 2))) None])\<close>
    using inst [where rawSpec = "metaBlock (countAttrs (BoolVal True))"
        and specContent = "BodyContent (countAttrs (BoolVal True)) [] (rangeAt 0)"
        and countAttr = "attr ''count'' (literalExpr (BoolVal True) (rangeAt 2))"
        and v = "BoolVal True" and convErr = "''number required''"]
    by (simp add: metaBlock_def countAttrs_def staticBody_def attr_def literalExpr_def
        topBody_def IsNull_def IsKnown_def Convert_Number_def exX_def)
  have neg: \<open>decodeMetaArgSpec exX topBody (metaBlock (countAttrs (NumberVal (- 1)))) =
     (\<lparr>rawBlock = metaBlock (countAttrs (NumberVal (- 1))),
       countSet = True, countVal = Some (NumberVal (- 1)), countNum = - 1,
       forEachSet = False, forEachVal' = None\<rparr>,
      [Diagnostic DiagError ''Invalid count argument''
         ''The given "count" argument value is unsuitable: negative numbers are not supported.''
         (Some (rangeAt 2)) (Some (literalExpr (NumberVal (- 1)) (rangeAt 2))) None])\<close>
    using inst [where rawSpec = "metaBlock (countAttrs (NumberVal (- 1)))"
        and specContent = "BodyContent (countAttrs (NumberVal (- 1))) [] (rangeAt 0)"
        and countAttr = "attr ''count'' (literalExpr (NumberVal (- 1)) (rangeAt 2))"
        and v = "NumberVal (- 1)" and n = "- 1" and nv = "NumberVal (- 1)"]
    by (simp add: metaBlock_def countAttrs_def staticBody_def attr_def literalExpr_def
        topBody_def IsNull_def IsKnown_def Convert_Number_def FromCtyValue_int_def
        MinInt64_def MaxInt64_def)
  have unk: "decodeMetaArgSpec exX topBody (metaBlock (countAttrs (UnknownVal cty_Number))) =
     (\<lparr>rawBlock = metaBlock (countAttrs (UnknownVal cty_Number)),
       countSet = True, countVal = Some (UnknownVal cty_Number), countNum = 0,
       forEachSet = False, forEachVal' = None\<rparr>, [])"
    using inst [where rawSpec = "metaBlock (countAttrs (UnknownVal cty_Number))"
        and specContent = "BodyContent (countAttrs (UnknownVal cty_Number)) [] (rangeAt 0)"
        and countAttr = "attr ''count'' (literalExpr (UnknownVal cty_Number) (rangeAt 2))"
        and v = "UnknownVal cty_Number"]
    by (simp add: metaBlock_def countAttrs_def staticBody_def attr_def literalExpr_def
        topBody_def IsKnown_def IsNull_def decodeMetaArgSpec_forEach_def)
  from null conv neg unk show ?thesis by simp
qed

text \<open>
  The claim as first stated has every negative count fail with the error about negative
  numbers. A negative count below the range of a Go \<^verbatim>\<open>int\<close> fails in the conversion
  to \<^verbatim>\<open>int\<close> before the sign is looked at.
\<close>

theorem decodeMetaArgSpec_count_counterexample:
  \<open>decodeMetaArgSpec exX topBody (metaBlock (countAttrs (NumberVal (- 18446744073709551616)))) =
     (\<lparr>rawBlock = metaBlock (countAttrs (NumberVal (- 18446744073709551616))),
       countSet = True, countVal = Some (NumberVal (- 18446744073709551616)), countNum = 0,
       forEachSet = False, forEachVal' = None\<rparr>,
      [Diagnostic DiagError ''Invalid count argument''
         ''The given "count" argument value is unsuitable: value must be a whole number, between -9223372036854775808 and 9223372036854775807.''
         (Some (rangeAt 2)) (Some (literalExpr (NumberVal (- 18446744073709551616)) (rangeAt 2)))
         None])\<close>
  by (simp add: decodeMetaArgSpec_def metaBlock_def countAttrs_def staticBody_def attr_def
      literalExpr_def topBody_def IsKnown_def IsNull_def Convert_Number_def
      FromCtyValue_int_def MinInt64_def MaxInt64_def Let_def)

subsection \<open>Both \<^verbatim>\<open>count\<close> and \<^verbatim>\<open>for_each\<close>\<close>

lemma decodeMetaArgSpec_count_accepted:
  assumes "PartialContent (Body rawSpec) expandableBlockBodySchema = (specContent, specDiags)"
    and "\<not> HasErrors specDiags"
    and "Attributes specContent ''count'' = Some countAttr"
    and "ExprValue (Expr countAttr) (ctx b) = (v, countDiags)"
    and "countAccepted X (fst (Unmark v))"
  shows "decodeMetaArgSpec X b rawSpec =
           decodeMetaArgSpec_forEach X b specContent
             \<lparr>rawBlock = rawSpec, countSet = True, countVal = Some (fst (Unmark v)),
               countNum = countNumOf X (fst (Unmark v)), forEachSet = False, forEachVal' = None\<rparr>
             (specDiags @ countDiags)"
  using assms
  by (auto simp add: decodeMetaArgSpec_def countAccepted_def countNumOf_def Let_def
      split: sum.splits)

lemma decodeMetaArgSpec_count_refused:
  assumes "PartialContent (Body rawSpec) expandableBlockBodySchema = (specContent, specDiags)"
    and "\<not> HasErrors specDiags"
    and "Attributes specContent ''count'' = Some countAttr"
    and "ExprValue (Expr countAttr) (ctx b) = (v, countDiags)"
    and "\<not> countAccepted X (fst (Unmark v))"
  shows "\<exists>n d. decodeMetaArgSpec X b rawSpec =
           (\<lparr>rawBlock = rawSpec, countSet = True, countVal = Some (fst (Unmark v)),
              countNum = n, forEachSet = False, forEachVal' = None\<rparr>,
            specDiags @ countDiags @ [d]) \<and> Severity d = DiagError"
  using assms
  by (auto simp add: decodeMetaArgSpec_def countAccepted_def Let_def split: sum.splits)

text \<open>
  C7 (as amended). For an ordinary block that declares both \<^verbatim>\<open>count\<close> and
  \<^verbatim>\<open>for_each\<close>, the decoding never reports the combination as such. When the count
  passes, \<^verbatim>\<open>for_each\<close> is decoded too: both \<^verbatim>\<open>countSet\<close> and \<^verbatim>\<open>forEachSet\<close> are
  recorded with their values, \<^verbatim>\<open>for_each\<close> is validated on its own (a value that is
  neither iterable nor of dynamic type, and a null value, each get their error), and when
  it passes as well the diagnostics are those of reading the content and evaluating the
  two expressions, nothing more. When the count fails its validation the decoding returns
  at once with that error: \<^verbatim>\<open>countSet\<close> is recorded, and \<^verbatim>\<open>for_each\<close> is neither
  decoded nor validated.
\<close>

theorem decodeMetaArgSpec_count_and_for_each:
  assumes "PartialContent (Body rawSpec) expandableBlockBodySchema = (specContent, specDiags)"
    and "\<not> HasErrors specDiags"
    and "Attributes specContent ''count'' = Some countAttr"
    and "ExprValue (Expr countAttr) (ctx b) = (v, countDiags)"
    and "Attributes specContent ''for_each'' = Some eachAttr"
    and "ExprValue (Expr eachAttr) (ctx b) = (eachVal, eachDiags)"
    and "spec2 = \<lparr>rawBlock = rawSpec, countSet = True, countVal = Some (fst (Unmark v)),
                   countNum = countNumOf X (fst (Unmark v)), forEachSet = True,
                   forEachVal' = Some eachVal\<rparr>"
  shows \<open>(countAccepted X (fst (Unmark v))
             \<and> (CanIterateElements eachVal \<or> Type eachVal = cty_DynamicPseudoType)
             \<and> \<not> IsNull eachVal \<longrightarrow>
            decodeMetaArgSpec X b rawSpec = (spec2, specDiags @ countDiags @ eachDiags))
       \<and> (countAccepted X (fst (Unmark v))
             \<and> \<not> CanIterateElements eachVal \<and> Type eachVal \<noteq> cty_DynamicPseudoType \<longrightarrow>
            decodeMetaArgSpec X b rawSpec =
              (spec2, specDiags @ countDiags @ eachDiags @ [Diagnostic DiagError
                 ''The `for_each` value is not iterable''
                 (''`'' @ GoString X eachVal @ ''` is not iterable'')
                 (Some (ExprRange (Expr eachAttr)))
                 (if IsMarked eachVal then None else Some (Expr eachAttr))
                 (if IsMarked eachVal then None else ctx b)]))
       \<and> (countAccepted X (fst (Unmark v))
             \<and> (CanIterateElements eachVal \<or> Type eachVal = cty_DynamicPseudoType)
             \<and> IsNull eachVal \<longrightarrow>
            decodeMetaArgSpec X b rawSpec =
              (spec2, specDiags @ countDiags @ eachDiags @ [Diagnostic DiagError
                 ''Invalid for_each argument''
                 ''The given "for_each" argument value is unsuitable: the given "for_each" argument value is null. A map, or set of strings is allowed.''
                 (Some (ExprRange (Expr eachAttr))) (Some (Expr eachAttr)) (ctx b)]))
       \<and> (\<not> countAccepted X (fst (Unmark v)) \<longrightarrow>
            (\<exists>n d. decodeMetaArgSpec X b rawSpec =
               (\<lparr>rawBlock = rawSpec, countSet = True, countVal = Some (fst (Unmark v)),
                  countNum = n, forEachSet = False, forEachVal' = None\<rparr>,
                specDiags @ countDiags @ [d]) \<and> Severity d = DiagError))\<close>
proof (intro conjI impI)
  assume h: "countAccepted X (fst (Unmark v))
             \<and> (CanIterateElements eachVal \<or> Type eachVal = cty_DynamicPseudoType)
             \<and> \<not> IsNull eachVal"
  then have acc: "countAccepted X (fst (Unmark v))" by simp
  from h assms(5-7) show "decodeMetaArgSpec X b rawSpec = (spec2, specDiags @ countDiags @ eachDiags)"
    by (auto simp add: decodeMetaArgSpec_count_accepted [OF assms(1-4) acc]
        decodeMetaArgSpec_forEach_def Let_def)
next
  assume h: "countAccepted X (fst (Unmark v))
             \<and> \<not> CanIterateElements eachVal \<and> Type eachVal \<noteq> cty_DynamicPseudoType"
  then have acc: "countAccepted X (fst (Unmark v))" by simp
  from h assms(5-7) show "decodeMetaArgSpec X b rawSpec =
              (spec2, specDiags @ countDiags @ eachDiags @ [Diagnostic DiagError
                 ''The `for_each` value is not iterable''
                 (''`'' @ GoString X eachVal @ ''` is not iterable'')
                 (Some (ExprRange (Expr eachAttr)))
                 (if IsMarked eachVal then None else Some (Expr eachAttr))
                 (if IsMarked eachVal then None else ctx b)])"
    by (simp add: decodeMetaArgSpec_count_accepted [OF assms(1-4) acc]
        decodeMetaArgSpec_forEach_def Let_def)
next
  assume h: "countAccepted X (fst (Unmark v))
             \<and> (CanIterateElements eachVal \<or> Type eachVal = cty_DynamicPseudoType)
             \<and> IsNull eachVal"
  then have acc: "countAccepted X (fst (Unmark v))" by simp
  from h assms(5-7) show \<open>decodeMetaArgSpec X b rawSpec =
              (spec2, specDiags @ countDiags @ eachDiags @ [Diagnostic DiagError
                 ''Invalid for_each argument''
                 ''The given "for_each" argument value is unsuitable: the given "for_each" argument value is null. A map, or set of strings is allowed.''
                 (Some (ExprRange (Expr eachAttr))) (Some (Expr eachAttr)) (ctx b)])\<close>
    by (auto simp add: decodeMetaArgSpec_count_accepted [OF assms(1-4) acc]
        decodeMetaArgSpec_forEach_def Let_def)
next
  assume "\<not> countAccepted X (fst (Unmark v))"
  from decodeMetaArgSpec_count_refused [OF assms(1-4) this]
  show "\<exists>n d. decodeMetaArgSpec X b rawSpec =
               (\<lparr>rawBlock = rawSpec, countSet = True, countVal = Some (fst (Unmark v)),
                  countNum = n, forEachSet = False, forEachVal' = None\<rparr>,
                specDiags @ countDiags @ [d]) \<and> Severity d = DiagError" .
qed

theorem decodeMetaArgSpec_count_and_for_each_witness:
  \<open>decodeMetaArgSpec exX topBody (metaBlock (bothAttrs (NumberVal 2) threeStrings)) =
     (\<lparr>rawBlock = metaBlock (bothAttrs (NumberVal 2) threeStrings),
       countSet = True, countVal = Some (NumberVal 2), countNum = 2,
       forEachSet = True, forEachVal' = Some threeStrings\<rparr>, [])
   \<and> decodeMetaArgSpec exX topBody (metaBlock (bothAttrs (NumberVal 2) (StringVal ''x''))) =
     (\<lparr>rawBlock = metaBlock (bothAttrs (NumberVal 2) (StringVal ''x'')),
       countSet = True, countVal = Some (NumberVal 2), countNum = 2,
       forEachSet = True, forEachVal' = Some (StringVal ''x'')\<rparr>,
      [Diagnostic DiagError ''The `for_each` value is not iterable''
         ''`cty.Value` is not iterable''
         (Some (rangeAt 3)) (Some (literalExpr (StringVal ''x'') (rangeAt 3))) None])
   \<and> decodeMetaArgSpec exX topBody
        (metaBlock (bothAttrs (NumberVal 2) (NullVal cty_DynamicPseudoType))) =
     (\<lparr>rawBlock = metaBlock (bothAttrs (NumberVal 2) (NullVal cty_DynamicPseudoType)),
       countSet = True, countVal = Some (NumberVal 2), countNum = 2,
       forEachSet = True, forEachVal' = Some (NullVal cty_DynamicPseudoType)\<rparr>,
      [Diagnostic DiagError ''Invalid for_each argument''
         ''The given "for_each" argument value is unsuitable: the given "for_each" argument value is null. A map, or set of strings is allowed.''
         (Some (rangeAt 3)) (Some (literalExpr (NullVal cty_DynamicPseudoType) (rangeAt 3))) None])
   \<and> (\<exists>n d. decodeMetaArgSpec exX topBody (metaBlock (bothAttrs (NumberVal (- 1)) threeStrings)) =
         (\<lparr>rawBlock = metaBlock (bothAttrs (NumberVal (- 1)) threeStrings),
           countSet = True, countVal = Some (NumberVal (- 1)), countNum = n,
           forEachSet = False, forEachVal' = None\<rparr>, [d]) \<and> Severity d = DiagError)\<close>
proof -
  have acc: "countAccepted exX (NumberVal 2)" "countNumOf exX (NumberVal 2) = 2"
    "\<not> countAccepted exX (NumberVal (- 1))"
    by (simp_all add: countAccepted_def countNumOf_def IsKnown_def IsNull_def Convert_Number_def
        FromCtyValue_int_def MinInt64_def MaxInt64_def)
  note inst = decodeMetaArgSpec_count_and_for_each [where X = exX and b = topBody
      and specDiags = "[]" and countDiags = "[]" and eachDiags = "[]", OF _ _ _ _ _ _ refl]
  have both: "decodeMetaArgSpec exX topBody (metaBlock (bothAttrs (NumberVal 2) threeStrings)) =
     (\<lparr>rawBlock = metaBlock (bothAttrs (NumberVal 2) threeStrings),
       countSet = True, countVal = Some (NumberVal 2), countNum = 2,
       forEachSet = True, forEachVal' = Some threeStrings\<rparr>, [])"
    using inst [where rawSpec = "metaBlock (bothAttrs (NumberVal 2) threeStrings)"
        and specContent = "BodyContent (bothAttrs (NumberVal 2) threeStrings) [] (rangeAt 0)"
        and countAttr = "attr ''count'' (literalExpr (NumberVal 2) (rangeAt 2))"
        and v = "NumberVal 2" and eachVal = threeStrings
        and eachAttr = "attr ''for_each'' (literalExpr threeStrings (rangeAt 3))"] acc
    by (simp add: metaBlock_def bothAttrs_def staticBody_def attr_def literalExpr_def
        topBody_def threeStrings_def CanIterateElements_def IsNull_def)
  have scalar: \<open>decodeMetaArgSpec exX topBody (metaBlock (bothAttrs (NumberVal 2) (StringVal ''x''))) =
     (\<lparr>rawBlock = metaBlock (bothAttrs (NumberVal 2) (StringVal ''x'')),
       countSet = True, countVal = Some (NumberVal 2), countNum = 2,
       forEachSet = True, forEachVal' = Some (StringVal ''x'')\<rparr>,
      [Diagnostic DiagError ''The `for_each` value is not iterable''
         ''`cty.Value` is not iterable''
         (Some (rangeAt 3)) (Some (literalExpr (StringVal ''x'') (rangeAt 3))) None])\<close>
    using inst [where rawSpec = "metaBlock (bothAttrs (NumberVal 2) (StringVal ''x''))"
        and specContent = "BodyContent (bothAttrs (NumberVal 2) (StringVal ''x'')) [] (rangeAt 0)"
        and countAttr = "attr ''count'' (literalExpr (NumberVal 2) (rangeAt 2))"
        and v = "NumberVal 2" and eachVal = "StringVal ''x''"
        and eachAttr = "attr ''for_each'' (literalExpr (StringVal ''x'') (rangeAt 3))"] acc
    by (simp add: metaBlock_def bothAttrs_def staticBody_def attr_def literalExpr_def
        topBody_def CanIterateElements_def exX_def)
  have null: \<open>decodeMetaArgSpec exX topBody
        (metaBlock (bothAttrs (NumberVal 2) (NullVal cty_DynamicPseudoType))) =
     (\<lparr>rawBlock = metaBlock (bothAttrs (NumberVal 2) (NullVal cty_DynamicPseudoType)),
       countSet = True, countVal = Some (NumberVal 2), countNum = 2,
       forEachSet = True, forEachVal' = Some (NullVal cty_DynamicPseudoType)\<rparr>,
      [Diagnostic DiagError ''Invalid for_each argument''
         ''The given "for_each" argument value is unsuitable: the given "for_each" argument value is null. A map, or set of strings is allowed.''
         (Some (rangeAt 3)) (Some (literalExpr (NullVal cty_DynamicPseudoType) (rangeAt 3))) None])\<close>
    using inst [where rawSpec = "metaBlock (bothAttrs (NumberVal 2) (NullVal cty_DynamicPseudoType))"
        and specContent = "BodyContent (bothAttrs (NumberVal 2) (NullVal cty_DynamicPseudoType)) [] (rangeAt 0)"
        and countAttr = "attr ''count'' (literalExpr (NumberVal 2) (rangeAt 2))"
        and v = "NumberVal 2" and eachVal = "NullVal cty_DynamicPseudoType"
        and eachAttr = "attr ''for_each'' (literalExpr (NullVal cty_DynamicPseudoType) (rangeAt 3))"] acc
    by (simp add: metaBlock_def bothAttrs_def staticBody_def attr_def literalExpr_def
        topBody_def CanIterateElements_def IsNull_def)
  have refused: "\<exists>n d. decodeMetaArgSpec exX topBody (metaBlock (bothAttrs (NumberVal (- 1)) threeStrings)) =
         (\<lparr>rawBlock = metaBlock (bothAttrs (NumberVal (- 1)) threeStrings),
           countSet = True, countVal = Some (NumberVal (- 1)), countNum = n,
           forEachSet = False, forEachVal' = None\<rparr>, [d]) \<and> Severity d = DiagError"
    using inst [where rawSpec = "metaBlock (bothAttrs (NumberVal (- 1)) threeStrings)"
        and specContent = "BodyContent (bothAttrs (NumberVal (- 1)) threeStrings) [] (rangeAt 0)"
        and countAttr = "attr ''count'' (literalExpr (NumberVal (- 1)) (rangeAt 2))"
        and v = "NumberVal (- 1)" and eachVal = threeStrings
        and eachAttr = "attr ''for_each'' (literalExpr threeStrings (rangeAt 3))"] acc
    by (simp add: metaBlock_def bothAttrs_def staticBody_def attr_def literalExpr_def topBody_def)
  from both scalar null refused show ?thesis by simp
qed

text \<open>
  The claim as first stated has both attributes decoded and each validated for every
  block that declares both. With a null count and a valid \<^verbatim>\<open>for_each\<close> the decoding
  stops at the count: \<^verbatim>\<open>forEachSet\<close> stays false.
\<close>

theorem decodeMetaArgSpec_count_and_for_each_counterexample:
  \<open>decodeMetaArgSpec exX topBody (metaBlock (bothAttrs (NullVal cty_Number) threeStrings)) =
     (\<lparr>rawBlock = metaBlock (bothAttrs (NullVal cty_Number) threeStrings),
       countSet = True, countVal = Some (NullVal cty_Number), countNum = 0,
       forEachSet = False, forEachVal' = None\<rparr>,
      [Diagnostic DiagError ''Invalid count argument''
         ''The given "count" argument value is null. An integer is required.''
         (Some (rangeAt 2)) (Some (literalExpr (NullVal cty_Number) (rangeAt 2))) None])\<close>
  by (simp add: decodeMetaArgSpec_def metaBlock_def bothAttrs_def staticBody_def attr_def
      literalExpr_def topBody_def IsKnown_def IsNull_def Let_def)

section \<open>Properties of the expander\<close>













lemma MakeChild_fields [simp]:
  "IteratorName (MakeChild i n k v) = n" "Key (MakeChild i n k v) = k" "Value (MakeChild i n k v) = v"
  by (simp_all add: MakeChild_def split: option.splits)

subsection \<open>Order and number of the blocks\<close>






subsection \<open>Examples of the expansion\<close>

text \<open>
  A block with \<^verbatim>\<open>count = 2\<close> gives two copies, the iterator bound to the indices, and
  one with \<^verbatim>\<open>count = 0\<close> gives none; the template of the copies no longer has the
  attribute \<^verbatim>\<open>count\<close>. A directive nested in the template of another one is expanded
  in the scope of the outer iteration. A directive whose \<^verbatim>\<open>for_each\<close> is unknown gives
  its placeholder, also when a label reads the iterator.
\<close>

lemma expandBlocks_count_example:
  "expandBlocks exX exP topBody schemaA [countedBlock (NumberVal 2)] =
     Inr ([Block ''a'' [''web''] (countedBody (NumberVal 2) 0) (rangeAt 1) (rangeAt 1) [rangeAt 1],
           Block ''a'' [''web''] (countedBody (NumberVal 2) 1) (rangeAt 1) (rangeAt 1) [rangeAt 1]],
          [])"
  "expandBlocks exX exP topBody schemaA [countedBlock (NumberVal 0)] = Inr ([], [])"
  "Attributes (fst (PartialContent (withoutMetaArgs (staticBody (countAttrs (NumberVal 2)) []))
      schema)) ''count'' = None"
  by (simp_all add: expandBlock_def expandMetaArgBlock_def expandCount_def repeatedBlocks_def
      indexPairs_def countedBlock_def countedBody_def schemaA_def exS1_def exP_def topBody_def
      staticBody_def countAttrs_def attr_def literalExpr_def
      decodeMetaArgSpec_def decodeMetaArgSpec_forEach_def Let_def
      Convert_Number_def FromCtyValue_int_def MinInt64_def MaxInt64_def IsKnown_def IsNull_def
      expandChild_def MakeChild_def IterationEvalContext_def IterationObject_def
      withoutMetaArgs_def dropMetaArgs_def upt_rec)

lemma expandedBlocks_nested_example:
  "expandedBlocks exX exP (Expand (staticBody Map.empty [outerDirective]) None) schemaB True =
     Inr ([Block ''b'' [] outerBody (rangeAt 1) (rangeAt 1) []], [])"
  "expandedBlocks exX exP outerBody schemaC True =
     Inr ([Block ''c'' [] (innerBody 0 (StringVal ''dynamic c nested 0'')) (rangeAt 3) (rangeAt 3) [],
           Block ''c'' [] (innerBody 1 (StringVal ''dynamic c nested 1'')) (rangeAt 3) (rangeAt 3) []],
          [])"
  by (simp_all add: expandedBlocks_def Expand_def expandBlock_def expandDynamicBlock_def
      schemaB_def schemaC_def outerDirective_def innerDirective_def outerBody_def innerBody_def
      nestedValues_def fiAttrs_def attr_def literalExpr_def variableExpr_def iteratorValueExpr_def
      staticBody_def contentBlock_def
      decodeDynamicSpec_def decodeDynamicSpec_iterator_def decodeDynamicSpec_labels_def
      decodeDynamicSpec_content_def dynamicBlockBodySchema_def RootName_def
      CanIterateElements_def IsNull_def IsKnown_def Let_def
      newBlock_def MakeChild_def IterationEvalContext_def IterationObject_def
      expandChild_def enumerate_eq_zip upt_rec)

lemma DynamicVal_facts:
  "Unmark DynamicVal = (DynamicVal, {})" "\<not> IsKnown DynamicVal" "\<not> IsNull DynamicVal"
  "Type DynamicVal = cty_DynamicPseudoType"
  by (simp_all add: DynamicVal_def IsKnown_def IsNull_def)

lemma expandBlocks_unknown_for_each_example:
  "expandBlocks exX P topBody schemaA
     [dynamicBlock ''a'' (flAttrs DynamicVal [iteratorKeyExpr ''a'' (rangeAt 3)]) [contentBlock 5]] =
   Inr ([Block ''a'' (PlaceholderLabels P (keyLabelledSpec\<lparr>forEachVal := DynamicVal\<rparr>))
           placeholderBody (rangeAt 1) (rangeAt 1) [rangeAt 3]], [])"
proof -
  have range: "ExprRange (iteratorKeyExpr ''a'' (rangeAt 3)) = rangeAt 3"
    by (simp add: iteratorKeyExpr_def)
  have dec: "decodeDynamicSpec topBody exS1
      (dynamicBlock ''a'' (flAttrs DynamicVal [iteratorKeyExpr ''a'' (rangeAt 3)]) [contentBlock 5]) =
      Inr (Some (keyLabelledSpec\<lparr>forEachVal := DynamicVal\<rparr>), [])"
    by (simp add: keyLabelledSpec_def exS1_def
        dynamicBlock_def flAttrs_def attr_def literalExpr_def listExpr_def staticBody_def
        contentBlock_def topBody_def DynamicVal_facts
        decodeDynamicSpec_def decodeDynamicSpec_iterator_def decodeDynamicSpec_labels_def
        decodeDynamicSpec_content_def dynamicBlockBodySchema_def)
  have shape: "BlockType (dynamicBlock ''a'' attrs blocks) = ''dynamic''"
    "Labels (dynamicBlock ''a'' attrs blocks) = [''a'']"
    "find (\<lambda>blockS. HeaderType blockS = ''a'') (SchemaBlocks schemaA) = Some exS1"
    for attrs blocks
    by (simp_all add: dynamicBlock_def schemaA_def exS1_def)
  have step: "expandBlocks exX P topBody schemaA
     [dynamicBlock ''a'' (flAttrs DynamicVal [iteratorKeyExpr ''a'' (rangeAt 3)]) [contentBlock 5]] =
     Inr ([placeholderBlock P topBody (keyLabelledSpec\<lparr>forEachVal := DynamicVal\<rparr>) {}], [])"
    by (simp add: expandBlock_def expandDynamicBlock_def shape dec DynamicVal_facts)
  have ph: "placeholderBlock P topBody (keyLabelledSpec\<lparr>forEachVal := DynamicVal\<rparr>) {} =
     Block ''a'' (PlaceholderLabels P (keyLabelledSpec\<lparr>forEachVal := DynamicVal\<rparr>))
           placeholderBody (rangeAt 1) (rangeAt 1) [rangeAt 3]"
    by (simp add: placeholderBlock_def placeholderBody_def expandChild_def topBody_def
        MakeChild_def IterationEvalContext_def IterationObject_def keyLabelledSpec_def range)
  from step ph show ?thesis by simp
qed

end
